theory Spec2Isabelle
  imports Complex_Main "HOL-Library.Char_ord" "HOL-Library.List_Lexorder"
begin

section \<open>Numbers and strings\<close>

text \<open>
  Colour components and coordinates are Python floats in the source. They are modelled
  as exact rationals: finite values, no rounding, no overflow. Page numbers and list
  lengths are Python's unbounded integers (\<open>int\<close>, \<open>nat\<close>). Strings are lists of
  characters; \<open>string\<close> literals are written with two single quotes.
\<close>

type_synonym pyfloat = rat

subsection \<open>Formatting integers\<close>

text \<open>\<open>str(n)\<close> and \<open>f"{n}"\<close> for an integer: decimal digits, with a minus sign.\<close>

fun dec_digits :: "nat \<Rightarrow> string" where
  "dec_digits n =
     (if n < 10 then [''0123456789'' ! n]
      else dec_digits (n div 10) @ [''0123456789'' ! (n mod 10)])"

declare dec_digits.simps [simp del]

definition str_int :: "int \<Rightarrow> string" where
  "str_int i = (if i < 0 then CHR ''-'' # dec_digits (nat (- i)) else dec_digits (nat i))"

text \<open>\<open>f"{n:02X}"\<close> for a non-negative integer: upper-case hexadecimal, zero-padded to
  two digits.\<close>

fun hex_digits :: "nat \<Rightarrow> string" where
  "hex_digits n =
     (if n < 16 then [''0123456789ABCDEF'' ! n]
      else hex_digits (n div 16) @ [''0123456789ABCDEF'' ! (n mod 16)])"

declare hex_digits.simps [simp del]

definition format_02X :: "nat \<Rightarrow> string" where
  "format_02X n = (let ds = hex_digits n in replicate (2 - length ds) CHR ''0'' @ ds)"

section \<open>utils.py: the colour classifier\<close>

text \<open>
  The dictionary \<open>known_colors\<close> of \<open>rgb_to_color_name\<close>, as an association list in the
  dictionary's insertion order (the order Python iterates it in). All keys are distinct.
\<close>

definition known_colors :: "(string \<times> pyfloat \<times> pyfloat \<times> pyfloat) list" where
  "known_colors =
    [(''Yellow'', 1, 1, 0),
     (''Red'', 1, 0, 0),
     (''Green'', 0, 1, 0),
     (''Blue'', 0, 0, 1),
     (''Orange'', 1, 0.5, 0),
     (''Magenta'', 1, 0, 1),
     (''Cyan'', 0, 1, 1),
     (''Purple'', 0.5, 0, 0.5),
     (''Pink'', 1, 0.75, 0.8),
     (''Light Yellow'', 1, 0.98, 0.6),
     (''Light Green'', 0.6, 1, 0.6),
     (''Light Blue'', 0.6, 0.8, 1),
     (''Light Pink'', 1, 0.7, 0.7),
     (''Light Purple'', 0.8, 0.6, 0.8),
     (''Light Orange'', 1, 0.8, 0.4),
     (''Light Gray'', 0.9, 0.9, 0.9),
     (''Dark Red'', 0.5, 0, 0),
     (''Dark Green'', 0, 0.5, 0),
     (''Dark Blue'', 0, 0, 0.5),
     (''Gray'', 0.5, 0.5, 0.5),
     (''Black'', 0, 0, 0),
     (''White'', 1, 1, 1),
     (''Teal'', 0, 0.5, 0.5),
     (''Olive'', 0.5, 0.5, 0),
     (''Maroon'', 0.5, 0, 0),
     (''Navy'', 0, 0, 0.5),
     (''Lime'', 0, 1, 0),
     (''Gold'', 1, 0.84, 0),
     (''Salmon'', 0.98, 0.5, 0.45),
     (''Sky Blue'', 0.53, 0.81, 0.92)]"

definition grayscale_names :: "string list" where
  "grayscale_names = [''Gray'', ''Light Gray'', ''Black'', ''White'']"

text \<open>\<open>saturation = max(r, g, b) - min(r, g, b)\<close> of the first three components.\<close>

definition saturation :: "pyfloat list \<Rightarrow> pyfloat" where
  "saturation rgb =
     max (rgb ! 0) (max (rgb ! 1) (rgb ! 2)) - min (rgb ! 0) (min (rgb ! 1) (rgb ! 2))"

text \<open>
  One iteration of the loop over \<open>known_colors.items()\<close>. The loop state is
  \<open>(min_dist, closest_name)\<close>; \<open>min_dist\<close> starts as \<open>float('inf')\<close>, modelled by
  \<open>None\<close>, which every distance is below.
\<close>

fun closest_step ::
  "pyfloat \<Rightarrow> pyfloat \<Rightarrow> pyfloat \<Rightarrow> bool \<Rightarrow> pyfloat option \<times> string \<Rightarrow>
   string \<times> pyfloat \<times> pyfloat \<times> pyfloat \<Rightarrow> pyfloat option \<times> string" where
  "closest_step r g b is_chromatic (min_dist, closest_name) (name, cr, cg, cb) =
     (if is_chromatic \<and> name \<in> set grayscale_names then (min_dist, closest_name)
      else
        let dist = (r - cr)\<^sup>2 + (g - cg)\<^sup>2 + (b - cb)\<^sup>2 in
        if (case min_dist of None \<Rightarrow> True | Some m \<Rightarrow> dist < m)
        then (Some dist, name)
        else (min_dist, closest_name))"

definition rgb_to_color_name :: "pyfloat list \<Rightarrow> string" where
  "rgb_to_color_name rgb =
     (if length rgb < 3 then ''unknown''
      else
        let r = rgb ! 0; g = rgb ! 1; b = rgb ! 2;
            is_chromatic = (saturation rgb > 0.15)
        in snd (foldl (closest_step r g b is_chromatic) (None, ''Gray'') known_colors))"

section \<open>utils.py: the hex converter\<close>

text \<open>
  \<open>rgb_to_hex\<close>: fewer than three components give white; a component above 1 makes the
  triple count as 0..255 and divides all three by 255; each channel is clamped to
  \<open>[0, 1]\<close>, scaled by 255 and truncated by \<open>int\<close> (the value is not negative there, so
  truncation is the floor).
\<close>

definition clamp01 :: "pyfloat \<Rightarrow> pyfloat" where
  "clamp01 x = max 0 (min 1 x)"

definition rgb_to_hex :: "pyfloat list \<Rightarrow> string" where
  "rgb_to_hex rgb =
     (if length rgb < 3 then ''#FFFFFF''
      else
        let r = rgb ! 0; g = rgb ! 1; b = rgb ! 2;
            scaled = (r > 1 \<or> g > 1 \<or> b > 1);
            r = (if scaled then r / 255 else r);
            g = (if scaled then g / 255 else g);
            b = (if scaled then b / 255 else b);
            r = clamp01 r; g = clamp01 g; b = clamp01 b
        in ''#'' @ format_02X (nat \<lfloor>r * 255\<rfloor>) @ format_02X (nat \<lfloor>g * 255\<rfloor>)
               @ format_02X (nat \<lfloor>b * 255\<rfloor>))"

section \<open>Python values shared by the modules\<close>

text \<open>
  Exceptions are values. \<open>RuntimeError\<close> and \<open>ValueError\<close> carry the message the source
  gives them; \<open>KeyError\<close> and \<open>IndexError\<close> are what a dictionary lookup and an index
  raise; \<open>LibraryError\<close> is any exception raised inside the PDF library or the archive
  writer. All of them are subclasses of \<open>Exception\<close>, which is
  what the handlers of the source catch.
\<close>

datatype exn =
    RuntimeError string
  | ValueError string
  | KeyError
  | IndexError
  | LibraryError string

text \<open>
  \<open>str.strip()\<close>: leading and trailing whitespace removed. A character is a code point
  below 256; \<open>isspace\<close> holds of the ones \<open>str.isspace\<close> accepts there.
\<close>

definition isspace :: "char \<Rightarrow> bool" where
  "isspace c =
     (let n = (of_char c :: nat)
      in (9 \<le> n \<and> n \<le> 13) \<or> (28 \<le> n \<and> n \<le> 32) \<or> n = 133 \<or> n = 160)"

definition strip :: "string \<Rightarrow> string" where
  "strip s = rev (dropWhile isspace (rev (dropWhile isspace s)))"

text \<open>\<open>" ".join(parts)\<close>.\<close>

fun join_space :: "string list \<Rightarrow> string" where
  "join_space [] = []"
| "join_space [s] = s"
| "join_space (s # t # parts) = s @ '' '' @ join_space (t # parts)"

text \<open>
  A highlight dictionary as the extractor builds it (all seven keys are always set, so
  the defaults of the \<open>.get\<close> calls of the formatters are never used).
\<close>

record highlight =
  hl_page :: int
  hl_text :: string
  hl_color :: "pyfloat list"
  hl_color_name :: string
  hl_rect :: "pyfloat list"
  hl_author :: "string option"
  hl_created :: "string option"

text \<open>The dictionary returned by \<open>extract_highlights\<close>.\<close>

record extraction_result =
  source_file :: string
  source_path :: string
  extraction_date :: string
  total_pages :: nat
  total_highlights :: nat
  highlights :: "highlight list"

text \<open>
  What the code takes from libraries outside the repository: \<open>pathlib\<close>
  (\<open>Path(p).name\<close>, \<open>Path(p).absolute()\<close>, \<open>Path(p).stem\<close>), the clock
  (\<open>datetime.now(timezone.utc).isoformat()\<close>), \<open>str.title\<close>, the identifiers drawn from
  \<open>uuid.uuid4\<close> (the \<open>k\<close>-th one drawn, already cut to 16 characters) and \<open>json.dumps\<close>
  with its \<open>indent\<close> argument.
\<close>

record 'j environment =
  path_name :: "string \<Rightarrow> string"
  path_absolute :: "string \<Rightarrow> string"
  path_stem :: "string \<Rightarrow> string"
  now_utc_iso :: string
  str_title :: "string \<Rightarrow> string"
  uuid4_hex16 :: "nat \<Rightarrow> string"
  json_dumps :: "nat option \<Rightarrow> 'j \<Rightarrow> string"

section \<open>utils.py: grouping and the JSON formatter\<close>

text \<open>
  A Python dictionary whose iteration order matters is an association list in insertion
  order, with distinct keys. \<open>group_append key h grouped\<close> is the loop body
  \<^verbatim>\<open>if key not in grouped: grouped[key] = []\<close> followed by
  \<^verbatim>\<open>grouped[key].append(h)\<close>: a new key goes to the end, an existing key keeps its place.
\<close>

fun group_append :: "'k \<Rightarrow> 'v \<Rightarrow> ('k \<times> 'v list) list \<Rightarrow> ('k \<times> 'v list) list" where
  "group_append key h [] = [(key, [h])]"
| "group_append key h ((k, vs) # grouped) =
     (if k = key then (k, vs @ [h]) # grouped else (k, vs) # group_append key h grouped)"

text \<open>The grouping loop \<^verbatim>\<open>for h in highlights: key = ...; ...\<close> over an empty dictionary.\<close>

definition group_loop :: "('v \<Rightarrow> 'k) \<Rightarrow> 'v list \<Rightarrow> ('k \<times> 'v list) list" where
  "group_loop key hs = foldl (\<lambda>grouped h. group_append (key h) h grouped) [] hs"

definition group_highlights :: "highlight list \<Rightarrow> string \<Rightarrow> (string \<times> highlight list) list" where
  "group_highlights hs group_by =
     (if group_by = ''page'' then group_loop (\<lambda>h. str_int (hl_page h)) hs
      else if group_by = ''color'' then group_loop hl_color_name hs
      else [])"

text \<open>
  \<open>format_json_output\<close>: the copied dictionary, with the key \<open>grouped_highlights\<close> added
  when \<open>group_by\<close> is truthy (neither \<open>None\<close> nor the empty string); the result goes to
  \<open>json.dumps\<close>, with \<open>indent=2\<close> when \<open>pretty\<close> is set.
\<close>

record json_output =
  jo_data :: extraction_result
  jo_grouped_highlights :: "(string \<times> highlight list) list option"

definition json_output_data :: "extraction_result \<Rightarrow> string option \<Rightarrow> json_output" where
  "json_output_data data group_by =
     \<lparr>jo_data = data,
      jo_grouped_highlights =
        (case group_by of
           None \<Rightarrow> None
         | Some g \<Rightarrow> if g \<noteq> [] then Some (group_highlights (highlights data) g) else None)\<rparr>"

definition format_json_output ::
  "json_output environment \<Rightarrow> extraction_result \<Rightarrow> bool \<Rightarrow> string option \<Rightarrow> string" where
  "format_json_output env data pretty group_by =
     (if pretty then json_dumps env (Some 2) (json_output_data data group_by)
      else json_dumps env None (json_output_data data group_by))"

section \<open>extractor.py: what the PDF library surfaces\<close>

text \<open>
  The PDF library (PyMuPDF) is outside the repository; the extractor reads a narrow part
  of it. Every access can raise, so every attribute the extractor reads is a value or an
  exception. The text query of a page is a function of the clip rectangle.
\<close>

record rect =
  x0 :: pyfloat
  y0 :: pyfloat
  x1 :: pyfloat
  y1 :: pyfloat

type_synonym point = "pyfloat \<times> pyfloat"

text \<open>A value of the \<open>colors\<close> dictionary: a flat sequence of numbers, or a dictionary.\<close>

datatype color_value = ColorSeq "pyfloat list" | ColorDict

record annot =
  a_type :: "exn + int"
  a_colors :: "exn + (string \<rightharpoonup> color_value)"
  a_rect :: "exn + rect"
  a_vertices :: "exn + point list option"
  a_info :: "exn + (string \<rightharpoonup> string)"

text \<open>
  \<open>page.annots()\<close> raises, or returns nothing (\<open>None\<close>), or returns an iterable that
  yields annotations and then ends, normally or with an exception.
\<close>

datatype annots_result =
    AnnotsRaises exn
  | AnnotsNone
  | AnnotsIter "annot list" "exn option"

record page =
  p_annots :: annots_result
  p_get_text :: "rect \<Rightarrow> exn + string"

text \<open>
  The extractor object: \<open>doc\<close> is \<open>None\<close> until the context manager opens the document.
  An opened document is its list of pages; as a Python object with \<open>__len__\<close> it is falsy
  when it has no page.
\<close>

record extractor =
  pdf_path :: string
  doc :: "page list option"

section \<open>extractor.py: text recovery\<close>

text \<open>\<open>range(0, n, 4)\<close>.\<close>

definition range_step4 :: "nat \<Rightarrow> nat list" where
  "range_step4 n = map (\<lambda>k. 4 * k) [0..<(n + 3) div 4]"

text \<open>
  \<open>fitz.Rect(min(xs), min(ys), max(xs), max(ys))\<close> for the points of \<open>quad\<close>; the builtins
  \<open>min\<close> and \<open>max\<close> raise \<open>ValueError\<close> on an empty list.
\<close>

definition quad_rect :: "point list \<Rightarrow> exn + rect" where
  "quad_rect quad =
     (let xs = map fst quad; ys = map snd quad
      in if quad = [] then Inl (ValueError ''min() arg is an empty sequence'')
         else Inr \<lparr>x0 = fold min (tl xs) (hd xs), y0 = fold min (tl ys) (hd ys),
                   x1 = fold max (tl xs) (hd xs), y1 = fold max (tl ys) (hd ys)\<rparr>)"

text \<open>
  The loop \<^verbatim>\<open>for i in range(0, len(vertices), 4)\<close> over the remaining indices, with the
  list \<open>text_parts\<close> collected so far. An exception of the text query leaves the loop.
\<close>

fun collect_quads :: "page \<Rightarrow> point list \<Rightarrow> nat list \<Rightarrow> string list \<Rightarrow> exn + string list" where
  "collect_quads pg vertices [] text_parts = Inr text_parts"
| "collect_quads pg vertices (i # is) text_parts =
     (if i + 3 < length vertices then
        (case quad_rect (take 4 (drop i vertices)) of
           Inl e \<Rightarrow> Inl e
         | Inr r \<Rightarrow>
             (case p_get_text pg r of
                Inl e \<Rightarrow> Inl e
              | Inr t \<Rightarrow>
                  collect_quads pg vertices is
                    (if strip t \<noteq> [] then text_parts @ [strip t] else text_parts)))
      else collect_quads pg vertices is text_parts)"

text \<open>The body of the \<open>try\<close> block of \<open>_get_highlight_text\<close>.\<close>

definition highlight_text_primary :: "page \<Rightarrow> annot \<Rightarrow> exn + string" where
  "highlight_text_primary pg annot =
     (case a_vertices annot of
        Inl e \<Rightarrow> Inl e
      | Inr vertices \<Rightarrow>
          (case (case vertices of
                   None \<Rightarrow> Inr []
                 | Some vs \<Rightarrow>
                     if vs \<noteq> [] \<and> length vs \<ge> 4
                     then collect_quads pg vs (range_step4 (length vs)) []
                     else Inr []) of
             Inl e \<Rightarrow> Inl e
           | Inr text_parts \<Rightarrow>
               if text_parts = [] then
                 (case a_rect annot of
                    Inl e \<Rightarrow> Inl e
                  | Inr r \<Rightarrow>
                      (case p_get_text pg r of
                         Inl e \<Rightarrow> Inl e
                       | Inr t \<Rightarrow>
                           Inr (join_space (if strip t \<noteq> [] then [strip t] else []))))
               else Inr (join_space text_parts)))"

text \<open>The \<open>except\<close> handler of \<open>_get_highlight_text\<close>, with its own \<open>try\<close>.\<close>

definition highlight_text_fallback :: "page \<Rightarrow> annot \<Rightarrow> string" where
  "highlight_text_fallback pg annot =
     (case a_rect annot of
        Inl e \<Rightarrow> []
      | Inr r \<Rightarrow> (case p_get_text pg r of Inl e \<Rightarrow> [] | Inr t \<Rightarrow> strip t))"

definition get_highlight_text :: "page \<Rightarrow> annot \<Rightarrow> string" where
  "get_highlight_text pg annot =
     (case highlight_text_primary pg annot of
        Inr t \<Rightarrow> t
      | Inl e \<Rightarrow> highlight_text_fallback pg annot)"

section \<open>extractor.py: one annotation\<close>

text \<open>
  Lines 132 to 138 of \<open>_extract_highlight_data\<close>: \<open>colors.get("stroke")\<close>, then
  \<open>colors.get("fill", [1.0, 1.0, 0.0])\<close> when that is \<open>None\<close>, then yellow for a
  dictionary.
\<close>

definition resolve_color :: "(string \<rightharpoonup> color_value) \<Rightarrow> pyfloat list" where
  "resolve_color colors =
     (let color =
        (case colors ''stroke'' of
           Some c \<Rightarrow> c
         | None \<Rightarrow> (case colors ''fill'' of Some c \<Rightarrow> c | None \<Rightarrow> ColorSeq [1, 1, 0]))
      in case color of ColorDict \<Rightarrow> [1, 1, 0] | ColorSeq cs \<Rightarrow> cs)"

text \<open>Lines 141 to 148: fewer than three components are completed, then \<open>color[:3]\<close>.\<close>

definition ensure_three :: "pyfloat list \<Rightarrow> pyfloat list" where
  "ensure_three color =
     take 3
       (if length color < 3 then
          (if length color = 1 then [color ! 0, color ! 0, color ! 0]
           else color @ replicate (3 - length color) 0)
        else color)"

text \<open>\<open>info.get("title") or info.get("subject") or None\<close>: the empty string is falsy.\<close>

definition info_author :: "(string \<rightharpoonup> string) \<Rightarrow> string option" where
  "info_author info =
     (let subject = (case info ''subject'' of
                       Some s \<Rightarrow> if s \<noteq> [] then Some s else None
                     | None \<Rightarrow> None)
      in case info ''title'' of
           Some t \<Rightarrow> if t \<noteq> [] then Some t else subject
         | None \<Rightarrow> subject)"

text \<open>
  \<open>_extract_highlight_data\<close>: \<open>None\<close> for an empty text and whenever anything raises
  (the whole body is inside \<open>try\<close>).
\<close>

definition extract_highlight_data :: "page \<Rightarrow> annot \<Rightarrow> int \<Rightarrow> highlight option" where
  "extract_highlight_data pg annot page_num =
     (let t = get_highlight_text pg annot in
      if t = [] \<or> strip t = [] then None
      else
        (case a_colors annot of
           Inl e \<Rightarrow> None
         | Inr colors \<Rightarrow>
             (let color = ensure_three (resolve_color colors) in
              case a_rect annot of
                Inl e \<Rightarrow> None
              | Inr r \<Rightarrow>
                  (case a_info annot of
                     Inl e \<Rightarrow> None
                   | Inr info \<Rightarrow>
                       Some \<lparr>hl_page = page_num,
                             hl_text = strip t,
                             hl_color = color,
                             hl_color_name = rgb_to_color_name color,
                             hl_rect = [x0 r, y0 r, x1 r, y1 r],
                             hl_author = info_author info,
                             hl_created = info ''creationDate''\<rparr>))))"

section \<open>extractor.py: pages and the document\<close>

text \<open>
  The loop over the annotations of a page. An annotation whose type cannot be read is
  skipped by the inner handler; type 8 is a highlight.
\<close>

fun page_loop :: "page \<Rightarrow> int \<Rightarrow> annot list \<Rightarrow> highlight list \<Rightarrow> highlight list" where
  "page_loop pg page_num [] hs = hs"
| "page_loop pg page_num (annot # annots) hs =
     page_loop pg page_num annots
       (case a_type annot of
          Inl e \<Rightarrow> hs
        | Inr ty \<Rightarrow>
            if ty = 8 then
              (case extract_highlight_data pg annot page_num of
                 Some h \<Rightarrow> hs @ [h]
               | None \<Rightarrow> hs)
            else hs)"

text \<open>
  \<open>_extract_page_highlights\<close>: the outer handler returns what was collected before the
  exception.
\<close>

definition extract_page_highlights :: "page \<Rightarrow> int \<Rightarrow> highlight list" where
  "extract_page_highlights pg page_num =
     (case p_annots pg of
        AnnotsRaises e \<Rightarrow> []
      | AnnotsNone \<Rightarrow> []
      | AnnotsIter annots ending \<Rightarrow> page_loop pg page_num annots [])"

text \<open>The loop \<^verbatim>\<open>for page_num in range(len(self.doc))\<close> over the remaining pages.\<close>

fun doc_loop :: "page list \<Rightarrow> int \<Rightarrow> highlight list \<Rightarrow> highlight list" where
  "doc_loop [] page_num hs = hs"
| "doc_loop (pg # pages) page_num hs =
     doc_loop pages (page_num + 1) (hs @ extract_page_highlights pg (page_num + 1))"

definition extract_highlights :: "'j environment \<Rightarrow> extractor \<Rightarrow> exn + extraction_result" where
  "extract_highlights env ex =
     (case doc ex of
        None \<Rightarrow> Inl (RuntimeError ''Document not opened. Use context manager.'')
      | Some pages \<Rightarrow>
          if pages = [] then Inl (RuntimeError ''Document not opened. Use context manager.'')
          else
            (let hs = doc_loop pages 0 [] in
             Inr \<lparr>source_file = path_name env (pdf_path ex),
                   source_path = path_absolute env (pdf_path ex),
                   extraction_date = now_utc_iso env,
                   total_pages = length pages,
                   total_highlights = length hs,
                   highlights = hs\<rparr>))"

section \<open>Loops over dictionaries in the exporters\<close>

text \<open>
  A loop whose body may raise: the first exception leaves the loop. \<open>dict_get\<close> is the
  subscript \<open>d[k]\<close>, which raises \<open>KeyError\<close> for a missing key, and \<open>for_sorted_keys\<close> is
  the idiom \<^verbatim>\<open>for k in sorted(d.keys()): v = d[k]; ...\<close> of both exporters.
\<close>

fun fold_exn :: "('a \<Rightarrow> 's \<Rightarrow> exn + 's) \<Rightarrow> 'a list \<Rightarrow> 's \<Rightarrow> exn + 's" where
  "fold_exn body [] s = Inr s"
| "fold_exn body (x # xs) s =
     (case body x s of Inl e \<Rightarrow> Inl e | Inr s' \<Rightarrow> fold_exn body xs s')"

definition dict_get :: "('k \<times> 'v) list \<Rightarrow> 'k \<Rightarrow> exn + 'v" where
  "dict_get d k = (case map_of d k of None \<Rightarrow> Inl KeyError | Some v \<Rightarrow> Inr v)"

definition for_sorted_keys ::
  "('k::linorder \<times> 'v) list \<Rightarrow> ('k \<Rightarrow> 'v \<Rightarrow> 's \<Rightarrow> exn + 's) \<Rightarrow> 's \<Rightarrow> exn + 's" where
  "for_sorted_keys d body s =
     fold_exn (\<lambda>k s'. case dict_get d k of Inl e \<Rightarrow> Inl e | Inr v \<Rightarrow> body k v s')
       (sort (map fst d)) s"

section \<open>xmind\_exporter.py\<close>

text \<open>
  A topic dictionary: \<open>id\<close>, \<open>title\<close>, an optional \<open>style\<close> and optional
  \<open>children.attached\<close>. A group topic has five style properties and a highlight topic
  three, all derived from one hex colour. The three members of the archive are kept as
  structured values; serialising them and writing the ZIP container is the writer's part.
\<close>

datatype style = GroupStyle string | HighlightStyle string

datatype topic =
  Topic (t_id: string) (t_title: string) (t_style: "style option")
        (t_children: "topic list option")

record root_topic =
  root_id :: string
  root_title :: string
  root_notes :: string
  root_attached :: "topic list"

record sheet =
  sheet_id :: string
  sheet_title :: string
  sheet_root :: root_topic

record metadata =
  creator_name :: string
  creator_version :: string
  created :: string

record xmind_archive =
  content_json :: "sheet list"
  manifest_json :: "string list"
  metadata_json :: metadata

text \<open>
  Identifiers come from \<open>uuid4\<close>; the state threaded through the functions that build
  topics is the list being appended to and the number of identifiers drawn so far.
\<close>

definition add_highlight_topic ::
  "'j environment \<Rightarrow> highlight \<Rightarrow> topic list \<times> nat \<Rightarrow> topic list \<times> nat" where
  "add_highlight_topic env h st =
     (case st of (attached, k) \<Rightarrow>
        (attached @
           [Topic (uuid4_hex16 env k) (hl_text h)
              (Some (HighlightStyle (rgb_to_hex (hl_color h)))) None],
         k + 1))"

text \<open>
  The body of the loop over the colours of \<open>_add_page_topics\<close> and of
  \<open>_add_color_topics\<close>, up to the children: \<open>color_highlights[0]\<close> raises \<open>IndexError\<close> on
  an empty list.
\<close>

definition first_color :: "highlight list \<Rightarrow> exn + pyfloat list" where
  "first_color color_highlights =
     (case color_highlights of [] \<Rightarrow> Inl IndexError | h # rest \<Rightarrow> Inr (hl_color h))"

definition page_color_topic ::
  "'j environment \<Rightarrow> string \<Rightarrow> highlight list \<Rightarrow> topic list \<times> nat \<Rightarrow> exn + topic list \<times> nat" where
  "page_color_topic env color_name color_highlights st =
     (case st of (attached, k) \<Rightarrow>
        (case first_color color_highlights of
           Inl e \<Rightarrow> Inl e
         | Inr c \<Rightarrow>
             (case foldl (\<lambda>s h. add_highlight_topic env h s) ([], k + 1) color_highlights of
                (children, k') \<Rightarrow>
                  Inr (attached @
                         [Topic (uuid4_hex16 env k) (str_title env color_name)
                            (Some (GroupStyle (rgb_to_hex c))) (Some children)],
                       k'))))"

definition page_topic ::
  "'j environment \<Rightarrow> int \<Rightarrow> highlight list \<Rightarrow> topic list \<times> nat \<Rightarrow> exn + topic list \<times> nat" where
  "page_topic env page_num page_highlights st =
     (case st of (attached, k) \<Rightarrow>
        (case for_sorted_keys (group_loop hl_color_name page_highlights)
                (page_color_topic env) ([], k + 1) of
           Inl e \<Rightarrow> Inl e
         | Inr (children, k') \<Rightarrow>
             Inr (attached @
                    [Topic (uuid4_hex16 env k) (''Page '' @ str_int page_num) None
                       (Some children)],
                  k')))"

definition add_page_topics ::
  "'j environment \<Rightarrow> extraction_result \<Rightarrow> topic list \<times> nat \<Rightarrow> exn + topic list \<times> nat" where
  "add_page_topics env data st =
     (case st of (attached, k) \<Rightarrow>
        if highlights data = [] then
          Inr (attached @ [Topic (uuid4_hex16 env k) ''No highlights found'' None None], k + 1)
        else for_sorted_keys (group_loop hl_page (highlights data)) (page_topic env) (attached, k))"

text \<open>\<open>_add_color_topics\<close>: colours outside, pages inside.\<close>

definition color_page_topic ::
  "'j environment \<Rightarrow> int \<Rightarrow> highlight list \<Rightarrow> topic list \<times> nat \<Rightarrow> exn + topic list \<times> nat" where
  "color_page_topic env page_num page_highlights st =
     (case st of (attached, k) \<Rightarrow>
        (case foldl (\<lambda>s h. add_highlight_topic env h s) ([], k + 1) page_highlights of
           (children, k') \<Rightarrow>
             Inr (attached @
                    [Topic (uuid4_hex16 env k) (''Page '' @ str_int page_num) None
                       (Some children)],
                  k')))"

definition color_topic ::
  "'j environment \<Rightarrow> string \<Rightarrow> highlight list \<Rightarrow> topic list \<times> nat \<Rightarrow> exn + topic list \<times> nat" where
  "color_topic env color_name color_highlights st =
     (case st of (attached, k) \<Rightarrow>
        (case first_color color_highlights of
           Inl e \<Rightarrow> Inl e
         | Inr c \<Rightarrow>
             (case for_sorted_keys (group_loop hl_page color_highlights)
                     (color_page_topic env) ([], k + 1) of
                Inl e \<Rightarrow> Inl e
              | Inr (children, k') \<Rightarrow>
                  Inr (attached @
                         [Topic (uuid4_hex16 env k) (str_title env color_name)
                            (Some (GroupStyle (rgb_to_hex c))) (Some children)],
                       k'))))"

definition add_color_topics ::
  "'j environment \<Rightarrow> extraction_result \<Rightarrow> topic list \<times> nat \<Rightarrow> exn + topic list \<times> nat" where
  "add_color_topics env data st =
     (case st of (attached, k) \<Rightarrow>
        if highlights data = [] then
          Inr (attached @ [Topic (uuid4_hex16 env k) ''No highlights found'' None None], k + 1)
        else for_sorted_keys (group_loop hl_color_name (highlights data)) (color_topic env)
               (attached, k))"

definition newline :: string where
  "newline = [CHR 0x0A]"

definition create_metadata_text :: "extraction_result \<Rightarrow> string" where
  "create_metadata_text data =
     ''Total Pages: '' @ str_int (int (total_pages data)) @ newline @
     ''Total Highlights: '' @ str_int (int (total_highlights data)) @ newline @
     ''Extraction Date: '' @ extraction_date data @ newline @
     ''Source Path: '' @ source_path data"

definition create_metadata :: "extraction_result \<Rightarrow> metadata" where
  "create_metadata data =
     \<lparr>creator_name = ''PDF Highlight Extractor'', creator_version = ''1.0.0'',
      created = extraction_date data\<rparr>"

definition create_manifest :: "string list" where
  "create_manifest = [''content.json'', ''metadata.json'']"

text \<open>
  \<open>_create_content\<close>: the root topic draws the first identifier, the sheet the last one.
\<close>

definition create_content ::
  "'j environment \<Rightarrow> extraction_result \<Rightarrow> string \<Rightarrow> exn + sheet list" where
  "create_content env data group_by =
     (let name = (if source_file data \<noteq> ''PDF Highlights''
                  then path_stem env (source_file data) else source_file data)
      in case (if group_by = ''page'' then add_page_topics env data ([], 1)
               else add_color_topics env data ([], 1)) of
           Inl e \<Rightarrow> Inl e
         | Inr (attached, k) \<Rightarrow>
             Inr [\<lparr>sheet_id = uuid4_hex16 env k,
                   sheet_title = ''Highlights: '' @ name,
                   sheet_root =
                     \<lparr>root_id = uuid4_hex16 env 0, root_title = name,
                      root_notes = create_metadata_text data,
                      root_attached = attached\<rparr>\<rparr>])"

text \<open>
  \<open>XMindExporter.export\<close>. The writer \<open>zip_write\<close> stands for the \<open>zipfile\<close> block: given
  the path and the archive it changes the world \<open>w\<close> (the files) and may raise; its
  exception is raised again by \<open>export\<close>. The result is the exception raised, if any, and
  the world after the call.
\<close>

definition xmind_export ::
  "'j environment \<Rightarrow> (string \<Rightarrow> xmind_archive \<Rightarrow> 'w \<Rightarrow> exn option \<times> 'w) \<Rightarrow>
   extraction_result \<Rightarrow> string \<Rightarrow> string \<Rightarrow> 'w \<Rightarrow> exn option \<times> 'w" where
  "xmind_export env zip_write data output_path group_by w =
     (if group_by \<notin> set [''page'', ''color'']
      then (Some (ValueError (''Invalid group_by option: '' @ group_by)), w)
      else
        (case create_content env data group_by of
           Inl e \<Rightarrow> (Some e, w)
         | Inr content \<Rightarrow>
             zip_write output_path
               \<lparr>content_json = content, manifest_json = create_manifest,
                metadata_json = create_metadata data\<rparr> w))"

section \<open>notion\_exporter.py\<close>

text \<open>\<open>"\n".join(lines)\<close>.\<close>

fun join_newline :: "string list \<Rightarrow> string" where
  "join_newline [] = []"
| "join_newline [s] = s"
| "join_newline (s # t # parts) = s @ newline @ join_newline (t # parts)"

text \<open>The block-quoted line of one highlight, with its text in a coloured span.\<close>

definition highlight_line :: "highlight \<Rightarrow> string" where
  "highlight_line h =
     ''> <span style='' @ [CHR 0x22] @ ''color: '' @ rgb_to_hex (hl_color h) @ [CHR 0x22] @ ''>''
       @ hl_text h @ ''</span>'' @ newline"

text \<open>The loop bodies of \<open>_generate_markdown\<close>; the state is the list \<open>lines\<close>.\<close>

definition md_page_color :: "'j environment \<Rightarrow> string \<Rightarrow> highlight list \<Rightarrow> string list \<Rightarrow> exn + string list" where
  "md_page_color env color_name color_highlights lines =
     Inr (foldl (\<lambda>ls h. ls @ [highlight_line h])
            (lines @ [''#### '' @ str_title env color_name @ newline]) color_highlights)"

definition md_page :: "'j environment \<Rightarrow> int \<Rightarrow> highlight list \<Rightarrow> string list \<Rightarrow> exn + string list" where
  "md_page env page_num page_highlights lines =
     for_sorted_keys (group_loop hl_color_name page_highlights) (md_page_color env)
       (lines @ [''### Page '' @ str_int page_num @ newline])"

definition md_color_page :: "int \<Rightarrow> highlight list \<Rightarrow> string list \<Rightarrow> exn + string list" where
  "md_color_page page_num page_highlights lines =
     Inr (foldl (\<lambda>ls h. ls @ [highlight_line h])
            (lines @ [''#### Page '' @ str_int page_num @ newline]) page_highlights)"

definition md_color :: "'j environment \<Rightarrow> string \<Rightarrow> highlight list \<Rightarrow> string list \<Rightarrow> exn + string list" where
  "md_color env color_name color_highlights lines =
     for_sorted_keys (group_loop hl_page color_highlights) md_color_page
       (lines @ [''### '' @ str_title env color_name @ newline])"

definition md_header :: "'j environment \<Rightarrow> extraction_result \<Rightarrow> string list" where
  "md_header env data =
     (let filename = (if source_path data \<noteq> ''Unknown PDF''
                      then path_stem env (source_path data) else source_path data)
      in [''# '' @ filename @ newline,
          ''## Document Information'' @ newline,
          ''- **Source:** '' @ source_path data,
          ''- **Total Pages:** '' @ str_int (int (total_pages data)),
          ''- **Total Highlights:** '' @ str_int (int (total_highlights data)),
          ''- **Extraction Date:** '' @ extraction_date data @ newline])"

text \<open>
  \<open>_generate_markdown\<close>, before the final join: any \<open>group_by\<close> other than \<open>"page"\<close> takes
  the colour branch.
\<close>

definition generate_markdown_lines ::
  "'j environment \<Rightarrow> extraction_result \<Rightarrow> string \<Rightarrow> exn + string list" where
  "generate_markdown_lines env data group_by =
     (if highlights data = [] then
        Inr (md_header env data @
             [''## Highlights'' @ newline,
              ''*No highlights found in this document.*'' @ newline])
      else if group_by = ''page'' then
        for_sorted_keys (group_loop hl_page (highlights data)) (md_page env)
          (md_header env data @ [''## Highlights'' @ newline])
      else
        for_sorted_keys (group_loop hl_color_name (highlights data)) (md_color env)
          (md_header env data @ [''## Highlights'' @ newline]))"

definition generate_markdown :: "'j environment \<Rightarrow> extraction_result \<Rightarrow> string \<Rightarrow> exn + string" where
  "generate_markdown env data group_by =
     (case generate_markdown_lines env data group_by of
        Inl e \<Rightarrow> Inl e
      | Inr lines \<Rightarrow> Inr (join_newline lines))"

section \<open>Notions used to state the properties\<close>

subsection \<open>Text recovery as the specification words it\<close>








subsection \<open>Colour resolution as the specification words it\<close>



subsection \<open>The annotations of a document\<close>

text \<open>What one iteration of the loop over a page's annotations adds to the result.\<close>

definition annot_highlight :: "page \<Rightarrow> int \<Rightarrow> annot \<Rightarrow> highlight option" where
  "annot_highlight pg page_num annot =
     (case a_type annot of
        Inl e \<Rightarrow> None
      | Inr ty \<Rightarrow> if ty = 8 then extract_highlight_data pg annot page_num else None)"

text \<open>The annotations a page yields (none when \<open>annots()\<close> raises or returns nothing).\<close>

definition page_annots :: "page \<Rightarrow> annot list" where
  "page_annots pg = (case p_annots pg of AnnotsIter annots ending \<Rightarrow> annots | _ \<Rightarrow> [])"

text \<open>
  Every annotation of the document with its page and its 1-indexed page number, in
  document order; \<open>highlight_annotations\<close> keeps the ones of type 8.
\<close>

fun doc_annotations_from :: "page list \<Rightarrow> int \<Rightarrow> (page \<times> int \<times> annot) list" where
  "doc_annotations_from [] n = []"
| "doc_annotations_from (pg # pages) n =
     map (\<lambda>a. (pg, n + 1, a)) (page_annots pg) @ doc_annotations_from pages (n + 1)"

definition doc_annotations :: "page list \<Rightarrow> (page \<times> int \<times> annot) list" where
  "doc_annotations pages = doc_annotations_from pages 0"


text \<open>
  A colour whose components are all in \<open>[0, 1]\<close>; a document whose raw stroke and fill
  sequences are all such colours.
\<close>

definition in_unit_range :: "pyfloat list \<Rightarrow> bool" where
  "in_unit_range cs = list_all (\<lambda>c. 0 \<le> c \<and> c \<le> 1) cs"

definition raw_value_in_range :: "color_value option \<Rightarrow> bool" where
  "raw_value_in_range v = (case v of Some (ColorSeq cs) \<Rightarrow> in_unit_range cs | _ \<Rightarrow> True)"

definition raw_colors_in_range :: "page list \<Rightarrow> bool" where
  "raw_colors_in_range pages =
     list_all (\<lambda>(pg, n, a).
        case a_colors a of
          Inl e \<Rightarrow> True
        | Inr colors \<Rightarrow> raw_value_in_range (colors ''stroke'') \<and> raw_value_in_range (colors ''fill''))
       (doc_annotations pages)"

subsection \<open>Group keys and the shape of the exports\<close>

text \<open>
  The distinct elements of a list in the order of their first occurrence, and the
  distinct keys of a list of values in ascending order.
\<close>

definition first_occ :: "'a list \<Rightarrow> 'a list" where
  "first_occ xs = rev (remdups (rev xs))"

definition sorted_keys :: "('v \<Rightarrow> 'k::linorder) \<Rightarrow> 'v list \<Rightarrow> 'k list" where
  "sorted_keys key hs = sort (remdups (map key hs))"

text \<open>
  The outline of the topics attached to the root of a mind map: the title of each outer
  group, with the titles of its inner groups, each with the titles of its leaves.
\<close>

definition child_topics :: "topic \<Rightarrow> topic list" where
  "child_topics t = (case t_children t of None \<Rightarrow> [] | Some ts \<Rightarrow> ts)"

definition group_outline :: "topic \<Rightarrow> string \<times> string list" where
  "group_outline t = (t_title t, map t_title (child_topics t))"

definition outline :: "topic list \<Rightarrow> (string \<times> (string \<times> string list) list) list" where
  "outline ts = map (\<lambda>t. (t_title t, map group_outline (child_topics t))) ts"

text \<open>
  The outline with pages outside (ascending) and colour names inside (ascending), each
  inner group holding the texts of its highlights in source order; and the same with
  colour names outside and pages inside.
\<close>

definition page_color_outline ::
  "'j environment \<Rightarrow> highlight list \<Rightarrow> (string \<times> (string \<times> string list) list) list" where
  "page_color_outline env hs =
     map (\<lambda>p. (''Page '' @ str_int p,
               map (\<lambda>c. (str_title env c,
                         map hl_text
                           (filter (\<lambda>h. hl_color_name h = c) (filter (\<lambda>h. hl_page h = p) hs))))
                 (sorted_keys hl_color_name (filter (\<lambda>h. hl_page h = p) hs))))
       (sorted_keys hl_page hs)"

definition color_page_outline ::
  "'j environment \<Rightarrow> highlight list \<Rightarrow> (string \<times> (string \<times> string list) list) list" where
  "color_page_outline env hs =
     map (\<lambda>c. (str_title env c,
               map (\<lambda>p. (''Page '' @ str_int p,
                         map hl_text
                           (filter (\<lambda>h. hl_page h = p) (filter (\<lambda>h. hl_color_name h = c) hs))))
                 (sorted_keys hl_page (filter (\<lambda>h. hl_color_name h = c) hs))))
       (sorted_keys hl_color_name hs)"

text \<open>The lines of the highlights section of the Markdown document, in the same two orders.\<close>

definition page_sections :: "'j environment \<Rightarrow> highlight list \<Rightarrow> string list" where
  "page_sections env hs =
     concat (map (\<lambda>p. (''### Page '' @ str_int p @ newline) #
                    concat (map (\<lambda>c. (''#### '' @ str_title env c @ newline) #
                                   map highlight_line
                                     (filter (\<lambda>h. hl_color_name h = c)
                                        (filter (\<lambda>h. hl_page h = p) hs)))
                              (sorted_keys hl_color_name (filter (\<lambda>h. hl_page h = p) hs))))
               (sorted_keys hl_page hs))"

definition color_sections :: "'j environment \<Rightarrow> highlight list \<Rightarrow> string list" where
  "color_sections env hs =
     concat (map (\<lambda>c. (''### '' @ str_title env c @ newline) #
                    concat (map (\<lambda>p. (''#### Page '' @ str_int p @ newline) #
                                   map highlight_line
                                     (filter (\<lambda>h. hl_page h = p)
                                        (filter (\<lambda>h. hl_color_name h = c) hs)))
                              (sorted_keys hl_page (filter (\<lambda>h. hl_color_name h = c) hs))))
               (sorted_keys hl_color_name hs))"

text \<open>The keys of the grouped view the JSON formatter attaches, in the order it lists them.\<close>

definition json_group_keys :: "extraction_result \<Rightarrow> string \<Rightarrow> string list" where
  "json_group_keys d g =
     (case jo_grouped_highlights (json_output_data d (Some g)) of
        None \<Rightarrow> []
      | Some grouped \<Rightarrow> map fst grouped)"

section \<open>Example inputs\<close>

definition example_env :: "unit environment" where
  "example_env =
     \<lparr>path_name = (\<lambda>p. p), path_absolute = (\<lambda>p. ''/'' @ p), path_stem = (\<lambda>p. p),
      now_utc_iso = ''2024-01-01T00:00:00+00:00'', str_title = (\<lambda>s. s),
      uuid4_hex16 = (\<lambda>k. dec_digits k), json_dumps = (\<lambda>indent j. [])\<rparr>"

definition example_rect :: rect where
  "example_rect = \<lparr>x0 = 100, y0 = 200, x1 = 300, y1 = 220\<rparr>"

text \<open>A highlight annotation without quad points, with the given colours.\<close>

definition plain_annot :: "(string \<rightharpoonup> color_value) \<Rightarrow> annot" where
  "plain_annot colors =
     \<lparr>a_type = Inr 8, a_colors = Inr colors, a_rect = Inr example_rect,
      a_vertices = Inr None, a_info = Inr Map.empty\<rparr>"

text \<open>A page on which every text query returns the same text.\<close>

definition text_page :: "annot list \<Rightarrow> page" where
  "text_page annots = \<lparr>p_annots = AnnotsIter annots None, p_get_text = (\<lambda>r. Inr '' Good text '')\<rparr>"




definition example_extractor :: "page list \<Rightarrow> extractor" where
  "example_extractor pages = \<lparr>pdf_path = ''test.pdf'', doc = Some pages\<rparr>"

text \<open>The records extracted from a yellow annotation and from one with a red component of 2.\<close>

definition yellow_highlight :: highlight where
  "yellow_highlight =
     \<lparr>hl_page = 1, hl_text = ''Good text'', hl_color = [1, 1, 0], hl_color_name = ''Yellow'',
      hl_rect = [100, 200, 300, 220], hl_author = None, hl_created = None\<rparr>"

definition overbright_highlight :: highlight where
  "overbright_highlight =
     \<lparr>hl_page = 1, hl_text = ''Good text'', hl_color = [2, 0, 0], hl_color_name = ''Red'',
      hl_rect = [100, 200, 300, 220], hl_author = None, hl_created = None\<rparr>"

text \<open>
  A page with a yellow and a red annotation and the result of extracting it; a writer
  that stores the archive under the path and never fails.
\<close>

definition red_highlight :: highlight where
  "red_highlight =
     \<lparr>hl_page = 1, hl_text = ''Good text'', hl_color = [1, 0, 0], hl_color_name = ''Red'',
      hl_rect = [100, 200, 300, 220], hl_author = None, hl_created = None\<rparr>"

definition two_color_page :: page where
  "two_color_page =
     text_page [plain_annot [''stroke'' \<mapsto> ColorSeq [1, 1, 0]],
                plain_annot [''stroke'' \<mapsto> ColorSeq [1, 0, 0]]]"

definition two_color_result :: extraction_result where
  "two_color_result =
     \<lparr>source_file = ''test.pdf'', source_path = ''/test.pdf'',
      extraction_date = ''2024-01-01T00:00:00+00:00'', total_pages = 1,
      total_highlights = 2, highlights = [yellow_highlight, red_highlight]\<rparr>"

definition example_writer ::
  "string \<Rightarrow> xmind_archive \<Rightarrow> (string \<rightharpoonup> xmind_archive) \<Rightarrow> exn option \<times> (string \<rightharpoonup> xmind_archive)" where
  "example_writer output_path archive files = (None, files(output_path \<mapsto> archive))"

section \<open>Properties of the colour classifier\<close>




text \<open>
  C2. The reference values of the classifier and of the hex converter: yellow, red and
  green are classified by their own names (green is found before lime, which is at the
  same distance zero and does not replace it, the comparison being strict), and pure red
  is \<open>#FF0000\<close>.
\<close>

theorem reference_values:
  "rgb_to_color_name [1, 1, 0] = ''Yellow'' \<and>
   rgb_to_color_name [1, 0, 0] = ''Red'' \<and>
   rgb_to_color_name [0, 1, 0] = ''Green'' \<and>
   rgb_to_hex [1, 0, 0] = ''#FF0000''"
  by code_simp



section \<open>Properties of text recovery\<close>

lemma dropWhile_strip: "dropWhile isspace (strip s) = strip s"
proof (cases "strip s = []")
  case True
  then show ?thesis by simp
next
  case False
  let ?t = "dropWhile isspace s"
  have "strip s @ rev (takeWhile isspace (rev ?t)) =
          rev (takeWhile isspace (rev ?t) @ dropWhile isspace (rev ?t))"
    by (simp only: rev_append strip_def)
  also have "\<dots> = rev (rev ?t)"
    by (simp only: takeWhile_dropWhile_id)
  finally have t: "?t = strip s @ rev (takeWhile isspace (rev ?t))"
    by simp
  have "?t \<noteq> []"
  proof
    assume e: "?t = []"
    have "strip s = rev (dropWhile isspace (rev ?t))" by (simp only: strip_def)
    also have "\<dots> = []" unfolding e by simp
    finally show False using False by simp
  qed
  then have "\<not> isspace (hd ?t)" by (rule hd_dropWhile)
  moreover from t False have "hd ?t = hd (strip s)"
    by (metis hd_append2)
  ultimately have "\<not> isspace (hd (strip s))" by simp
  then show ?thesis by (simp add: dropWhile_eq_self_iff)
qed

lemma strip_idem: "strip (strip s) = strip s"
proof -
  have "strip (strip s) = rev (dropWhile isspace (rev (strip s)))"
    by (simp add: strip_def [of "strip s"] dropWhile_strip)
  also have "\<dots> = strip s"
    by (simp add: strip_def)
  finally show ?thesis .
qed









section \<open>Properties of the annotation normalizer\<close>

lemma length_ensure_three: "length (ensure_three c) = 3"
  by (auto simp: ensure_three_def)

lemma set_ensure_three: "set (ensure_three c) \<subseteq> set c \<union> {0}"
  by (auto simp: ensure_three_def dest!: in_set_takeD split: if_splits)


lemma extract_highlight_data_Some:
  assumes "extract_highlight_data pg a n = Some h"
  shows "\<exists>colors t. a_colors a = Inr colors \<and> hl_color h = ensure_three (resolve_color colors) \<and>
           hl_text h = strip t \<and> strip t \<noteq> [] \<and>
           hl_color_name h = rgb_to_color_name (hl_color h) \<and> hl_page h = n"
  using assms
  by (auto simp: extract_highlight_data_def Let_def split: if_splits sum.splits)

lemma in_unit_range_resolve:
  assumes "raw_value_in_range (colors ''stroke'')" and "raw_value_in_range (colors ''fill'')"
  shows "in_unit_range (resolve_color colors)"
  using assms
  by (auto simp: resolve_color_def raw_value_in_range_def in_unit_range_def
      split: option.splits color_value.splits)

lemma in_unit_range_ensure_three: "in_unit_range c \<Longrightarrow> in_unit_range (ensure_three c)"
  using set_ensure_three [of c] by (auto simp: in_unit_range_def list_all_iff)


lemma strip_good: "strip '' Good text '' = ''Good text''"
  by (simp add: strip_def isspace_def)

lemma strip_good2: "strip ''Good text'' = ''Good text''"
  by (simp add: strip_def isspace_def)

lemma name_red2: "rgb_to_color_name [2, 0, 0] = ''Red''"
  by code_simp

lemma plain_annot_data:
  "extract_highlight_data (text_page annots) (plain_annot colors) n =
     Some \<lparr>hl_page = n, hl_text = ''Good text'',
           hl_color = ensure_three (resolve_color colors),
           hl_color_name = rgb_to_color_name (ensure_three (resolve_color colors)),
           hl_rect = [100, 200, 300, 220], hl_author = None, hl_created = None\<rparr>"
  by (simp add: extract_highlight_data_def get_highlight_text_def highlight_text_primary_def
      plain_annot_def text_page_def example_rect_def strip_good strip_good2 info_author_def Let_def)



section \<open>Properties of the document extractor\<close>

lemma page_loop_char:
  "page_loop pg n annots hs = hs @ List.map_filter (annot_highlight pg n) annots"
  by (induction annots arbitrary: hs)
     (auto simp: List.map_filter_simps annot_highlight_def split: sum.splits option.splits)

lemma extract_page_char:
  "extract_page_highlights pg n = List.map_filter (annot_highlight pg n) (page_annots pg)"
  by (simp add: extract_page_highlights_def page_annots_def page_loop_char List.map_filter_simps
      split: annots_result.splits)

lemma map_filter_map: "List.map_filter f (map g xs) = List.map_filter (f \<circ> g) xs"
  by (simp add: List.map_filter_def filter_map comp_def)

lemma map_filter_append': "List.map_filter f (xs @ ys) = List.map_filter f xs @ List.map_filter f ys"
  by (simp add: List.map_filter_def)

lemma doc_loop_char:
  "doc_loop pages n hs =
     hs @ List.map_filter (\<lambda>(pg, k, a). annot_highlight pg k a) (doc_annotations_from pages n)"
  by (induction pages arbitrary: n hs)
     (simp_all add: List.map_filter_simps extract_page_char map_filter_append' map_filter_map comp_def)

lemma extract_highlights_open:
  assumes "doc ex = Some pages" and "pages \<noteq> []"
  shows "\<exists>r. extract_highlights env ex = Inr r \<and> total_pages r = length pages \<and>
           total_highlights r = length (highlights r) \<and>
           highlights r =
             List.map_filter (\<lambda>(pg, k, a). annot_highlight pg k a) (doc_annotations pages)"
  using assms
  by (simp add: extract_highlights_def doc_loop_char doc_annotations_def Let_def)






lemma in_set_map_filter: "y \<in> set (List.map_filter f xs) \<longleftrightarrow> (\<exists>x \<in> set xs. f x = Some y)"
  by (induction xs) (auto simp: List.map_filter_simps split: option.splits)

lemma in_unit_range_annotation:
  assumes "raw_colors_in_range pages" and "(pg, k, a) \<in> set (doc_annotations pages)"
    and "a_colors a = Inr colors"
  shows "in_unit_range (ensure_three (resolve_color colors))"
proof -
  from assms have "raw_value_in_range (colors ''stroke'') \<and> raw_value_in_range (colors ''fill'')"
    by (auto simp: raw_colors_in_range_def list_all_iff)
  then show ?thesis
    by (simp add: in_unit_range_resolve in_unit_range_ensure_three)
qed




lemma single_page_result:
  "extract_highlights example_env (example_extractor [text_page [plain_annot colors]]) =
     Inr \<lparr>source_file = ''test.pdf'', source_path = ''/test.pdf'',
           extraction_date = ''2024-01-01T00:00:00+00:00'', total_pages = 1,
           total_highlights = 1,
           highlights =
             [\<lparr>hl_page = 1, hl_text = ''Good text'',
               hl_color = ensure_three (resolve_color colors),
               hl_color_name = rgb_to_color_name (ensure_three (resolve_color colors)),
               hl_rect = [100, 200, 300, 220], hl_author = None, hl_created = None\<rparr>]\<rparr>"
proof -
  have "extract_page_highlights (text_page [plain_annot colors]) 1 =
          [\<lparr>hl_page = 1, hl_text = ''Good text'',
               hl_color = ensure_three (resolve_color colors),
               hl_color_name = rgb_to_color_name (ensure_three (resolve_color colors)),
               hl_rect = [100, 200, 300, 220], hl_author = None, hl_created = None\<rparr>]"
    using plain_annot_data [of "[plain_annot colors]" colors 1]
    by (simp add: extract_page_highlights_def text_page_def plain_annot_def)
  then show ?thesis
    by (simp add: extract_highlights_def example_extractor_def example_env_def)
qed



text \<open>
  C1, as the code has it. Every record of an extraction result has a text that is
  non-empty after trimming (and already trimmed), a colour of exactly three components
  and the colour name the classifier gives to that colour. The components are copied
  from the annotation without clamping: they are in \<open>[0, 1]\<close> when the raw stroke and fill
  colours of the document are.
\<close>

theorem highlight_record_invariant:
  assumes "doc ex = Some pages"
    and "extract_highlights env ex = Inr r"
    and "h \<in> set (highlights r)"
  shows "strip (hl_text h) \<noteq> [] \<and> strip (hl_text h) = hl_text h \<and>
         length (hl_color h) = 3 \<and>
         hl_color_name h = rgb_to_color_name (hl_color h) \<and>
         (raw_colors_in_range pages \<longrightarrow> in_unit_range (hl_color h))"
proof -
  from assms(1,2) have ne: "pages \<noteq> []"
    by (auto simp: extract_highlights_def split: if_splits)
  from extract_highlights_open [OF assms(1) ne, of env] assms(2)
  have "highlights r =
          List.map_filter (\<lambda>(pg, k, a). annot_highlight pg k a) (doc_annotations pages)"
    by simp
  with assms(3) obtain pg k a where
    mem: "(pg, k, a) \<in> set (doc_annotations pages)" and "annot_highlight pg k a = Some h"
    by (auto simp: in_set_map_filter)
  then have data: "extract_highlight_data pg a k = Some h"
    by (auto simp: annot_highlight_def split: sum.splits if_splits)
  from extract_highlight_data_Some [OF data] obtain colors t where
    c: "a_colors a = Inr colors" "hl_color h = ensure_three (resolve_color colors)"
       "hl_text h = strip t" "strip t \<noteq> []"
       "hl_color_name h = rgb_to_color_name (hl_color h)"
    by blast
  have "in_unit_range (hl_color h)" if "raw_colors_in_range pages"
    using in_unit_range_annotation [OF that mem c(1)] c(2) by simp
  with c show ?thesis
    by (simp add: strip_idem length_ensure_three)
qed

theorem highlight_record_invariant_witness:
  "doc (example_extractor [text_page [plain_annot [''stroke'' \<mapsto> ColorSeq [1, 1, 0]]]]) =
     Some [text_page [plain_annot [''stroke'' \<mapsto> ColorSeq [1, 1, 0]]]] \<and>
   extract_highlights example_env
     (example_extractor [text_page [plain_annot [''stroke'' \<mapsto> ColorSeq [1, 1, 0]]]]) =
     Inr \<lparr>source_file = ''test.pdf'', source_path = ''/test.pdf'',
           extraction_date = ''2024-01-01T00:00:00+00:00'', total_pages = 1,
           total_highlights = 1, highlights = [yellow_highlight]\<rparr> \<and>
   raw_colors_in_range [text_page [plain_annot [''stroke'' \<mapsto> ColorSeq [1, 1, 0]]]] \<and>
   strip (hl_text yellow_highlight) \<noteq> [] \<and>
   length (hl_color yellow_highlight) = 3 \<and>
   hl_color_name yellow_highlight = rgb_to_color_name (hl_color yellow_highlight) \<and>
   in_unit_range (hl_color yellow_highlight)"
proof -
  let ?pages = "[text_page [plain_annot [''stroke'' \<mapsto> ColorSeq [1, 1, 0]]]]"
  let ?r = "\<lparr>source_file = ''test.pdf'', source_path = ''/test.pdf'',
           extraction_date = ''2024-01-01T00:00:00+00:00'', total_pages = 1,
           total_highlights = 1, highlights = [yellow_highlight]\<rparr>"
  have c: "ensure_three (resolve_color [''stroke'' \<mapsto> ColorSeq [1, 1, 0]]) = [1, 1, 0]"
    by (simp add: resolve_color_def ensure_three_def)
  have nm: "rgb_to_color_name [1, 1, 0] = ''Yellow''" by code_simp
  have h1: "doc (example_extractor ?pages) = Some ?pages"
    by (simp add: example_extractor_def)
  have h2: "extract_highlights example_env (example_extractor ?pages) = Inr ?r"
    by (simp add: single_page_result c nm yellow_highlight_def)
  have h3: "yellow_highlight \<in> set (highlights ?r)" by simp
  have h4: "raw_colors_in_range ?pages"
    by (simp add: raw_colors_in_range_def doc_annotations_def page_annots_def text_page_def
        plain_annot_def raw_value_in_range_def in_unit_range_def)
  from highlight_record_invariant [OF h1 h2 h3] h1 h2 h4 show ?thesis by blast
qed

text \<open>
  An annotation whose stroke colour has a component of 2 yields a record with that
  colour: the range of the components is not an invariant of the result.
\<close>

theorem color_range_counterexample:
  "extract_highlights example_env
     (example_extractor [text_page [plain_annot [''stroke'' \<mapsto> ColorSeq [2, 0, 0]]]]) =
     Inr \<lparr>source_file = ''test.pdf'', source_path = ''/test.pdf'',
           extraction_date = ''2024-01-01T00:00:00+00:00'', total_pages = 1,
           total_highlights = 1, highlights = [overbright_highlight]\<rparr> \<and>
   hl_color overbright_highlight = [2, 0, 0] \<and> \<not> in_unit_range [2, 0, 0]"
proof -
  have r: "ensure_three (resolve_color [''stroke'' \<mapsto> ColorSeq [2, 0, 0]]) = [2, 0, 0]"
    by (simp add: resolve_color_def ensure_three_def)
  show ?thesis
    by (simp add: single_page_result r name_red2 overbright_highlight_def in_unit_range_def)
qed

section \<open>Properties of grouping\<close>

lemma first_occ_snoc:
  "first_occ (xs @ [x]) = (if x \<in> set xs then first_occ xs else first_occ xs @ [x])"
  unfolding first_occ_def by auto

lemma set_first_occ: "set (first_occ xs) = set xs"
  by (simp add: first_occ_def)

lemma distinct_first_occ: "distinct (first_occ xs)"
  by (simp add: first_occ_def)

lemma group_append_map:
  "distinct ks \<Longrightarrow> group_append k h (map (\<lambda>k'. (k', f k')) ks) =
    (if k \<in> set ks then map (\<lambda>k'. (k', if k' = k then f k' @ [h] else f k')) ks
     else map (\<lambda>k'. (k', f k')) ks @ [(k, [h])])"
  by (induction ks) auto

lemma group_loop_snoc: "group_loop key (hs @ [h]) = group_append (key h) h (group_loop key hs)"
  by (simp add: group_loop_def)

lemma group_loop_char:
  "group_loop key hs = map (\<lambda>k. (k, filter (\<lambda>h. key h = k) hs)) (first_occ (map key hs))"
proof (induction hs rule: rev_induct)
  case Nil
  show ?case by (simp add: group_loop_def first_occ_def)
next
  case (snoc h hs)
  show ?case
    by (auto simp: group_loop_snoc snoc.IH group_append_map distinct_first_occ set_first_occ
        first_occ_snoc filter_empty_conv)
       (metis imageI)
qed

lemma keys_group_loop: "map fst (group_loop key hs) = first_occ (map key hs)"
  by (simp add: group_loop_char comp_def)

lemma sort_first_occ: "sort (first_occ xs) = sort (remdups xs)"
  by (rule sorted_distinct_set_unique) (simp_all add: distinct_first_occ set_first_occ)

lemma sorted_keys_group_loop: "sort (map fst (group_loop key hs)) = sorted_keys key hs"
  by (simp add: keys_group_loop sort_first_occ sorted_keys_def)

lemma set_sorted_keys: "set (sorted_keys key hs) = key ` set hs"
  by (simp add: sorted_keys_def)

lemma sorted_sorted_keys: "sorted (sorted_keys key hs) \<and> distinct (sorted_keys key hs)"
  by (simp add: sorted_keys_def)

lemma map_of_tabulate:
  "map_of (map (\<lambda>k. (k, f k)) ks) k = (if k \<in> set ks then Some (f k) else None)"
  by (induction ks) auto

lemma dict_get_group_loop:
  "k \<in> key ` set hs \<Longrightarrow> dict_get (group_loop key hs) k = Inr (filter (\<lambda>h. key h = k) hs)"
  by (simp add: dict_get_def group_loop_char map_of_tabulate set_first_occ)

lemma fold_exn_cong:
  "(\<And>x s. x \<in> set xs \<Longrightarrow> f x s = g x s) \<Longrightarrow> fold_exn f xs s = fold_exn g xs s"
  by (induction xs arbitrary: s) (auto split: sum.splits)

lemma for_sorted_keys_group:
  "for_sorted_keys (group_loop key hs) body s =
     fold_exn (\<lambda>k s'. body k (filter (\<lambda>h. key h = k) hs) s') (sorted_keys key hs) s"
  unfolding for_sorted_keys_def sorted_keys_group_loop
  by (rule fold_exn_cong) (simp add: set_sorted_keys dict_get_group_loop)

lemma fold_exn_sections:
  assumes "\<And>x st. x \<in> set xs \<Longrightarrow> body x st = Inr (st @ sec x)"
  shows "fold_exn body xs st = Inr (st @ concat (map sec xs))"
  using assms by (induction xs arbitrary: st) auto

lemma fold_exn_topics:
  assumes "\<And>x att k. x \<in> set xs \<Longrightarrow>
             \<exists>t k'. body x (att, k) = Inr (att @ [t], k') \<and> proj t = p x"
  shows "\<exists>ts k'. fold_exn body xs (att, k) = Inr (att @ ts, k') \<and> map proj ts = map p xs"
  using assms
proof (induction xs arbitrary: att k)
  case Nil
  show ?case by simp
next
  case (Cons x xs)
  from Cons.prems [of x att k] obtain t k1 where
    t: "body x (att, k) = Inr (att @ [t], k1)" "proj t = p x" by auto
  from Cons.IH [of "att @ [t]" k1] Cons.prems obtain ts k2 where
    ts: "fold_exn body xs (att @ [t], k1) = Inr ((att @ [t]) @ ts, k2)" "map proj ts = map p xs"
    by auto
  show ?case
    using t ts by (intro exI [of _ "t # ts"] exI [of _ k2]) simp
qed

lemma filter_group_nonempty: "k \<in> set (sorted_keys key hs) \<Longrightarrow> filter (\<lambda>h. key h = k) hs \<noteq> []"
  by (auto simp: set_sorted_keys filter_empty_conv)

lemma concat_single_key:
  "distinct ks \<Longrightarrow>
   concat (map (\<lambda>k'. if k' = k then v else []) ks) = (if k \<in> set ks then v else [])"
  by (induction ks) auto

lemma filter_filter_key:
  "filter (\<lambda>h. key h = k) (filter (\<lambda>h. key h = k') hs) =
     (if k' = k then filter (\<lambda>h. key h = k) hs else [])"
  by (auto simp: filter_empty_conv intro: filter_cong)

lemma filter_regroup:
  "filter (\<lambda>h. key h = k) (concat (map (\<lambda>k'. filter (\<lambda>h. key h = k') hs) (first_occ (map key hs)))) =
   filter (\<lambda>h. key h = k) hs"
proof -
  let ?ks = "first_occ (map key hs)"
  have "filter (\<lambda>h. key h = k) (concat (map (\<lambda>k'. filter (\<lambda>h. key h = k') hs) ?ks)) =
        concat (map (\<lambda>k'. filter (\<lambda>h. key h = k) (filter (\<lambda>h. key h = k') hs)) ?ks)"
    by (simp only: filter_concat map_map comp_def)
  also have "\<dots> = concat (map (\<lambda>k'. if k' = k then filter (\<lambda>h. key h = k) hs else []) ?ks)"
    by (simp only: filter_filter_key)
  also have "\<dots> = (if k \<in> set ?ks then filter (\<lambda>h. key h = k) hs else [])"
    by (rule concat_single_key) (rule distinct_first_occ)
  also have "\<dots> = filter (\<lambda>h. key h = k) hs"
  proof (cases "k \<in> key ` set hs")
    case True
    then show ?thesis by (simp add: set_first_occ)
  next
    case False
    then have "filter (\<lambda>h. key h = k) hs = []"
      by (auto simp: filter_empty_conv)
    then show ?thesis by simp
  qed
  finally show ?thesis .
qed

lemma first_occ_append_block:
  assumes "ys \<noteq> []" and "set ys = {k}" and "k \<notin> set xs"
  shows "first_occ (xs @ ys) = first_occ xs @ [k]"
  using assms
proof (induction ys rule: rev_induct)
  case Nil
  then show ?case by simp
next
  case (snoc y ys)
  then have y: "y = k" by auto
  show ?case
  proof (cases "ys = []")
    case True
    with snoc.prems y show ?thesis by (simp add: first_occ_snoc)
  next
    case False
    then obtain z where z: "z \<in> set ys" by (cases ys) auto
    with snoc.prems(2) have "z = k" by auto
    with z snoc.prems(2) have s: "set ys = {k}" by auto
    from snoc.IH [OF False s snoc.prems(3)] have "first_occ (xs @ ys) = first_occ xs @ [k]" .
    moreover have "y \<in> set (xs @ ys)" using y s by simp
    ultimately show ?thesis
      using first_occ_snoc [of "xs @ ys" y] by simp
  qed
qed

lemma first_occ_blocks:
  assumes "distinct ks" and "\<And>k. k \<in> set ks \<Longrightarrow> blk k \<noteq> [] \<and> set (blk k) = {k}"
  shows "first_occ (concat (map blk ks)) = ks"
  using assms
proof (induction ks rule: rev_induct)
  case Nil
  show ?case by (simp add: first_occ_def)
next
  case (snoc k ks)
  have d: "distinct ks" and nk: "k \<notin> set ks" using snoc.prems(1) by simp_all
  have IH: "first_occ (concat (map blk ks)) = ks"
    using snoc.IH [OF d] snoc.prems(2) by simp
  have b: "blk k \<noteq> []" "set (blk k) = {k}" using snoc.prems(2) [of k] by simp_all
  have "k \<notin> set (concat (map blk ks))"
    using nk snoc.prems(2) by auto
  from first_occ_append_block [OF b this] IH show ?case by simp
qed

lemma keys_regroup:
  "first_occ (map key (concat (map (\<lambda>k. filter (\<lambda>h. key h = k) hs) (first_occ (map key hs))))) =
   first_occ (map key hs)"
proof -
  have "map key (concat (map (\<lambda>k. filter (\<lambda>h. key h = k) hs) (first_occ (map key hs)))) =
        concat (map (\<lambda>k. map key (filter (\<lambda>h. key h = k) hs)) (first_occ (map key hs)))"
    by (simp add: map_concat comp_def)
  moreover have "first_occ (concat (map (\<lambda>k. map key (filter (\<lambda>h. key h = k) hs))
                    (first_occ (map key hs)))) = first_occ (map key hs)"
  proof (rule first_occ_blocks [OF distinct_first_occ])
    fix k assume "k \<in> set (first_occ (map key hs))"
    then have "k \<in> key ` set hs" by (simp add: set_first_occ)
    then show "map key (filter (\<lambda>h. key h = k) hs) \<noteq> [] \<and>
               set (map key (filter (\<lambda>h. key h = k) hs)) = {k}"
      by (auto simp: filter_empty_conv)
  qed
  ultimately show ?thesis by simp
qed

lemma group_loop_regroup:
  "group_loop key (concat (map snd (group_loop key hs))) = group_loop key hs"
proof -
  let ?flat = "concat (map (\<lambda>k. filter (\<lambda>h. key h = k) hs) (first_occ (map key hs)))"
  have flat: "concat (map snd (group_loop key hs)) = ?flat"
    by (simp add: group_loop_char comp_def)
  have "group_loop key ?flat =
          map (\<lambda>k. (k, filter (\<lambda>h. key h = k) ?flat)) (first_occ (map key ?flat))"
    by (rule group_loop_char)
  also have "\<dots> = map (\<lambda>k. (k, filter (\<lambda>h. key h = k) hs)) (first_occ (map key hs))"
    by (simp only: keys_regroup filter_regroup)
  also have "\<dots> = group_loop key hs"
    by (rule group_loop_char [symmetric])
  finally show ?thesis by (simp only: flat)
qed

text \<open>
  C8. Grouping is a function of the list alone (the source reads nothing else and
  changes neither the list nor its elements), so two calls on the same list give the same
  mapping; the keys are distinct, in the order of their first occurrence, and the group
  of a key is the source list filtered by that key: the highlights of a group keep their
  relative order. Grouping the groups again, in their order, gives the same mapping.
\<close>

theorem grouping_stable:
  "group_highlights hs ''page'' =
     map (\<lambda>k. (k, filter (\<lambda>h. str_int (hl_page h) = k) hs))
       (first_occ (map (\<lambda>h. str_int (hl_page h)) hs)) \<and>
   group_highlights hs ''color'' =
     map (\<lambda>k. (k, filter (\<lambda>h. hl_color_name h = k) hs)) (first_occ (map hl_color_name hs)) \<and>
   group_highlights (concat (map snd (group_highlights hs ''page''))) ''page'' =
     group_highlights hs ''page'' \<and>
   group_highlights (concat (map snd (group_highlights hs ''color''))) ''color'' =
     group_highlights hs ''color''"
  by (simp add: group_highlights_def group_loop_char [symmetric] group_loop_regroup)

text \<open>
  C10, as the code has it. With a \<open>group_by\<close> other than \<open>"page"\<close> and \<open>"color"\<close> the grouping
  function returns the empty mapping and raises nothing; the JSON formatter then attaches
  an empty grouped view when that string is not empty, and no grouped view at all for
  the empty string, which the guard \<^verbatim>\<open>if group_by and ...\<close> treats like \<open>None\<close>.
\<close>

theorem unknown_group_by:
  assumes "g \<noteq> ''page''" and "g \<noteq> ''color''"
  shows "group_highlights hs g = [] \<and>
         json_output_data d (Some g) =
           \<lparr>jo_data = d, jo_grouped_highlights = (if g = [] then None else Some [])\<rparr> \<and>
         format_json_output env d pretty (Some g) =
           json_dumps env (if pretty then Some 2 else None)
             \<lparr>jo_data = d, jo_grouped_highlights = (if g = [] then None else Some [])\<rparr>"
  using assms
  by (simp add: group_highlights_def json_output_data_def format_json_output_def)

theorem unknown_group_by_witness:
  "''invalid'' \<noteq> ''page'' \<and> ''invalid'' \<noteq> ''color'' \<and>
   group_highlights [yellow_highlight, red_highlight] ''invalid'' = [] \<and>
   json_output_data two_color_result (Some ''invalid'') =
     \<lparr>jo_data = two_color_result, jo_grouped_highlights = Some []\<rparr>"
proof -
  have h1: "''invalid'' \<noteq> ''page''" by simp
  have h2: "''invalid'' \<noteq> ''color''" by simp
  from unknown_group_by [OF h1 h2, of "[yellow_highlight, red_highlight]" two_color_result]
  show ?thesis by simp
qed

text \<open>For the empty string the formatter attaches nothing, not an empty grouped view.\<close>

theorem empty_group_by_counterexample:
  "'''' \<noteq> ''page'' \<and> '''' \<noteq> ''color'' \<and>
   jo_grouped_highlights (json_output_data two_color_result (Some '''')) = None \<and>
   jo_grouped_highlights (json_output_data two_color_result (Some '''')) \<noteq> Some []"
  by (simp add: json_output_data_def)

section \<open>Properties of the Markdown formatter\<close>

lemma foldl_lines: "foldl (\<lambda>ls h. ls @ [highlight_line h]) ls hs = ls @ map highlight_line hs"
  by (induction hs arbitrary: ls) auto

lemma md_page_char:
  "md_page env p phs lines =
     Inr (lines @ (''### Page '' @ str_int p @ newline) #
            concat (map (\<lambda>c. (''#### '' @ str_title env c @ newline) #
                           map highlight_line (filter (\<lambda>h. hl_color_name h = c) phs))
                      (sorted_keys hl_color_name phs)))"
  unfolding md_page_def for_sorted_keys_group
  by (subst fold_exn_sections
        [where sec = "\<lambda>c. (''#### '' @ str_title env c @ newline) #
                           map highlight_line (filter (\<lambda>h. hl_color_name h = c) phs)"])
     (simp_all add: md_page_color_def foldl_lines)

lemma md_color_char:
  "md_color env c chs lines =
     Inr (lines @ (''### '' @ str_title env c @ newline) #
            concat (map (\<lambda>p. (''#### Page '' @ str_int p @ newline) #
                           map highlight_line (filter (\<lambda>h. hl_page h = p) chs))
                      (sorted_keys hl_page chs)))"
  unfolding md_color_def for_sorted_keys_group
  by (subst fold_exn_sections
        [where sec = "\<lambda>p. (''#### Page '' @ str_int p @ newline) #
                           map highlight_line (filter (\<lambda>h. hl_page h = p) chs)"])
     (simp_all add: md_color_page_def foldl_lines)

lemma markdown_page_char:
  assumes "highlights d \<noteq> []"
  shows "generate_markdown_lines env d ''page'' =
           Inr (md_header env d @ [''## Highlights'' @ newline] @ page_sections env (highlights d))"
  using assms
  unfolding generate_markdown_lines_def for_sorted_keys_group page_sections_def
  by (simp add: fold_exn_sections [OF md_page_char])

lemma markdown_color_char:
  assumes "highlights d \<noteq> []" and "g \<noteq> ''page''"
  shows "generate_markdown_lines env d g =
           Inr (md_header env d @ [''## Highlights'' @ newline] @ color_sections env (highlights d))"
  using assms
  unfolding generate_markdown_lines_def for_sorted_keys_group color_sections_def
  by (simp add: fold_exn_sections [OF md_color_char])

section \<open>Properties of the mind-map exporter\<close>

lemma highlight_topics:
  "\<exists>ts. foldl (\<lambda>s h. add_highlight_topic env h s) (att, k) hs = (att @ ts, k + length hs) \<and>
        map t_title ts = map hl_text hs"
proof (induction hs arbitrary: att k)
  case Nil
  show ?case by simp
next
  case (Cons h hs)
  let ?t = "Topic (uuid4_hex16 env k) (hl_text h) (Some (HighlightStyle (rgb_to_hex (hl_color h)))) None"
  from Cons.IH [of "att @ [?t]" "k + 1"] obtain ts where
    "foldl (\<lambda>s h. add_highlight_topic env h s) (att @ [?t], k + 1) hs =
       ((att @ [?t]) @ ts, k + 1 + length hs)" "map t_title ts = map hl_text hs"
    by blast
  then show ?case
    by (intro exI [of _ "?t # ts"]) (simp add: add_highlight_topic_def)
qed

lemma page_color_topic_char:
  assumes "chs \<noteq> []"
  shows "\<exists>t k'. page_color_topic env c chs (att, k) = Inr (att @ [t], k') \<and>
           group_outline t = (str_title env c, map hl_text chs)"
proof -
  from assms obtain h rest where chs: "chs = h # rest" by (cases chs) auto
  from highlight_topics [of env "[]" "k + 1" chs] obtain ts where
    ts: "foldl (\<lambda>s h. add_highlight_topic env h s) ([], k + 1) chs = (ts, k + 1 + length chs)"
        "map t_title ts = map hl_text chs"
    by auto
  have fc: "first_color chs = Inr (hl_color h)"
    by (simp add: first_color_def chs)
  let ?t = "Topic (uuid4_hex16 env k) (str_title env c)
              (Some (GroupStyle (rgb_to_hex (hl_color h)))) (Some ts)"
  have "page_color_topic env c chs (att, k) = Inr (att @ [?t], k + 1 + length chs)"
    by (simp only: page_color_topic_def prod.case sum.case fc ts(1))
  moreover have "group_outline ?t = (str_title env c, map hl_text chs)"
    by (simp add: group_outline_def child_topics_def ts(2))
  ultimately show ?thesis by blast
qed

lemma color_page_topic_char:
  "\<exists>t k'. color_page_topic env p phs (att, k) = Inr (att @ [t], k') \<and>
           group_outline t = (''Page '' @ str_int p, map hl_text phs)"
proof -
  from highlight_topics [of env "[]" "k + 1" phs] obtain ts where
    ts: "foldl (\<lambda>s h. add_highlight_topic env h s) ([], k + 1) phs = (ts, k + 1 + length phs)"
        "map t_title ts = map hl_text phs"
    by auto
  let ?t = "Topic (uuid4_hex16 env k) (''Page '' @ str_int p) None (Some ts)"
  have "color_page_topic env p phs (att, k) = Inr (att @ [?t], k + 1 + length phs)"
    by (simp only: color_page_topic_def prod.case ts(1))
  moreover have "group_outline ?t = (''Page '' @ str_int p, map hl_text phs)"
    by (simp add: group_outline_def child_topics_def ts(2))
  ultimately show ?thesis by blast
qed

lemma page_topic_char:
  "\<exists>t k'. page_topic env p phs (att, k) = Inr (att @ [t], k') \<and>
     (t_title t, map group_outline (child_topics t)) =
       (''Page '' @ str_int p,
        map (\<lambda>c. (str_title env c, map hl_text (filter (\<lambda>h. hl_color_name h = c) phs)))
          (sorted_keys hl_color_name phs))"
proof -
  have "\<exists>ts k'. fold_exn (\<lambda>c s'. page_color_topic env c (filter (\<lambda>h. hl_color_name h = c) phs) s')
                   (sorted_keys hl_color_name phs) ([], k + 1) = Inr ([] @ ts, k') \<and>
          map group_outline ts =
            map (\<lambda>c. (str_title env c, map hl_text (filter (\<lambda>h. hl_color_name h = c) phs)))
              (sorted_keys hl_color_name phs)"
    by (rule fold_exn_topics) (rule page_color_topic_char, rule filter_group_nonempty)
  then obtain ts k' where
    ts: "for_sorted_keys (group_loop hl_color_name phs) (page_color_topic env) ([], k + 1) =
           Inr (ts, k')"
        "map group_outline ts =
            map (\<lambda>c. (str_title env c, map hl_text (filter (\<lambda>h. hl_color_name h = c) phs)))
              (sorted_keys hl_color_name phs)"
    by (auto simp: for_sorted_keys_group)
  let ?t = "Topic (uuid4_hex16 env k) (''Page '' @ str_int p) None (Some ts)"
  have "page_topic env p phs (att, k) = Inr (att @ [?t], k')"
    by (simp only: page_topic_def prod.case sum.case ts(1))
  moreover have "(t_title ?t, map group_outline (child_topics ?t)) =
       (''Page '' @ str_int p,
        map (\<lambda>c. (str_title env c, map hl_text (filter (\<lambda>h. hl_color_name h = c) phs)))
          (sorted_keys hl_color_name phs))"
    by (simp add: child_topics_def ts(2))
  ultimately show ?thesis by blast
qed

lemma color_topic_char:
  assumes "chs \<noteq> []"
  shows "\<exists>t k'. color_topic env c chs (att, k) = Inr (att @ [t], k') \<and>
     (t_title t, map group_outline (child_topics t)) =
       (str_title env c,
        map (\<lambda>p. (''Page '' @ str_int p, map hl_text (filter (\<lambda>h. hl_page h = p) chs)))
          (sorted_keys hl_page chs))"
proof -
  from assms obtain h rest where chs: "chs = h # rest" by (cases chs) auto
  have fc: "first_color chs = Inr (hl_color h)"
    by (simp add: first_color_def chs)
  have "\<exists>ts k'. fold_exn (\<lambda>p s'. color_page_topic env p (filter (\<lambda>h. hl_page h = p) chs) s')
                   (sorted_keys hl_page chs) ([], k + 1) = Inr ([] @ ts, k') \<and>
          map group_outline ts =
            map (\<lambda>p. (''Page '' @ str_int p, map hl_text (filter (\<lambda>h. hl_page h = p) chs)))
              (sorted_keys hl_page chs)"
    by (rule fold_exn_topics) (rule color_page_topic_char)
  then obtain ts k' where
    ts: "for_sorted_keys (group_loop hl_page chs) (color_page_topic env) ([], k + 1) =
           Inr (ts, k')"
        "map group_outline ts =
            map (\<lambda>p. (''Page '' @ str_int p, map hl_text (filter (\<lambda>h. hl_page h = p) chs)))
              (sorted_keys hl_page chs)"
    by (auto simp: for_sorted_keys_group)
  let ?t = "Topic (uuid4_hex16 env k) (str_title env c)
              (Some (GroupStyle (rgb_to_hex (hl_color h)))) (Some ts)"
  have "color_topic env c chs (att, k) = Inr (att @ [?t], k')"
    by (simp only: color_topic_def prod.case sum.case fc ts(1))
  moreover have "(t_title ?t, map group_outline (child_topics ?t)) =
       (str_title env c,
        map (\<lambda>p. (''Page '' @ str_int p, map hl_text (filter (\<lambda>h. hl_page h = p) chs)))
          (sorted_keys hl_page chs))"
    by (simp add: child_topics_def ts(2))
  ultimately show ?thesis by blast
qed

lemma add_page_topics_char:
  assumes "highlights d \<noteq> []"
  shows "\<exists>ts k'. add_page_topics env d ([], k) = Inr (ts, k') \<and>
           outline ts = page_color_outline env (highlights d)"
proof -
  let ?hs = "highlights d"
  have "\<exists>ts k'. fold_exn (\<lambda>p s'. page_topic env p (filter (\<lambda>h. hl_page h = p) ?hs) s')
                   (sorted_keys hl_page ?hs) ([], k) = Inr ([] @ ts, k') \<and>
          map (\<lambda>t. (t_title t, map group_outline (child_topics t))) ts =
            map (\<lambda>p. (''Page '' @ str_int p,
               map (\<lambda>c. (str_title env c,
                         map hl_text
                           (filter (\<lambda>h. hl_color_name h = c) (filter (\<lambda>h. hl_page h = p) ?hs))))
                 (sorted_keys hl_color_name (filter (\<lambda>h. hl_page h = p) ?hs))))
              (sorted_keys hl_page ?hs)"
    by (rule fold_exn_topics) (rule page_topic_char)
  then show ?thesis
    using assms
    by (auto simp: add_page_topics_def for_sorted_keys_group outline_def page_color_outline_def)
qed

lemma add_color_topics_char:
  assumes "highlights d \<noteq> []"
  shows "\<exists>ts k'. add_color_topics env d ([], k) = Inr (ts, k') \<and>
           outline ts = color_page_outline env (highlights d)"
proof -
  let ?hs = "highlights d"
  have "\<exists>ts k'. fold_exn (\<lambda>c s'. color_topic env c (filter (\<lambda>h. hl_color_name h = c) ?hs) s')
                   (sorted_keys hl_color_name ?hs) ([], k) = Inr ([] @ ts, k') \<and>
          map (\<lambda>t. (t_title t, map group_outline (child_topics t))) ts =
            map (\<lambda>c. (str_title env c,
               map (\<lambda>p. (''Page '' @ str_int p,
                         map hl_text
                           (filter (\<lambda>h. hl_page h = p) (filter (\<lambda>h. hl_color_name h = c) ?hs))))
                 (sorted_keys hl_page (filter (\<lambda>h. hl_color_name h = c) ?hs))))
              (sorted_keys hl_color_name ?hs)"
    by (rule fold_exn_topics) (rule color_topic_char, rule filter_group_nonempty)
  then show ?thesis
    using assms
    by (auto simp: add_color_topics_def for_sorted_keys_group outline_def color_page_outline_def)
qed

lemma add_topics_empty:
  assumes "highlights d = []"
  shows "add_page_topics env d ([], k) =
           Inr ([Topic (uuid4_hex16 env k) ''No highlights found'' None None], k + 1)"
    and "add_color_topics env d ([], k) =
           Inr ([Topic (uuid4_hex16 env k) ''No highlights found'' None None], k + 1)"
  using assms by (simp_all add: add_page_topics_def add_color_topics_def)

lemma create_content_total:
  "\<exists>sh. create_content env d g = Inr [sh] \<and>
     (highlights d \<noteq> [] \<longrightarrow>
        outline (root_attached (sheet_root sh)) =
          (if g = ''page'' then page_color_outline env (highlights d)
           else color_page_outline env (highlights d)))"
proof (cases "highlights d = []")
  case True
  then show ?thesis
    by (simp add: create_content_def add_topics_empty Let_def)
next
  case False
  show ?thesis
  proof (cases "g = ''page''")
    case True
    from add_page_topics_char [OF False, of env 1] obtain ts k' where
      "add_page_topics env d ([], 1) = Inr (ts, k')"
      "outline ts = page_color_outline env (highlights d)" by blast
    with True show ?thesis
      by (simp add: create_content_def Let_def)
  next
    case g: False
    from add_color_topics_char [OF False, of env 1] obtain ts k' where
      "add_color_topics env d ([], 1) = Inr (ts, k')"
      "outline ts = color_page_outline env (highlights d)" by blast
    with g show ?thesis
      by (simp add: create_content_def Let_def)
  qed
qed

text \<open>
  C9. With a \<open>group_by\<close> other than \<open>"page"\<close> and \<open>"color"\<close> the mind-map exporter raises
  \<open>ValueError\<close> before the writer is called: the files are as they were, so an output
  path that did not exist still does not. With \<open>"page"\<close> or \<open>"color"\<close> building the content
  raises nothing, whatever the extraction result holds: the export is the call of the
  writer on the archive, and only the writer can raise.
\<close>

theorem xmind_export_group_by:
  "(g \<noteq> ''page'' \<and> g \<noteq> ''color'' \<longrightarrow>
      xmind_export env zip_write d output_path g w =
        (Some (ValueError (''Invalid group_by option: '' @ g)), w)) \<and>
   (g = ''page'' \<or> g = ''color'' \<longrightarrow>
      (\<exists>sh. create_content env d g = Inr [sh] \<and>
            xmind_export env zip_write d output_path g w =
              zip_write output_path
                \<lparr>content_json = [sh], manifest_json = create_manifest,
                 metadata_json = create_metadata d\<rparr> w))"
proof -
  from create_content_total [of env d g] obtain sh where
    "create_content env d g = Inr [sh]" by blast
  then show ?thesis
    by (auto simp: xmind_export_def)
qed

theorem xmind_export_group_by_witness:
  "''invalid'' \<noteq> ''page'' \<and> ''invalid'' \<noteq> ''color'' \<and>
   xmind_export example_env example_writer two_color_result ''test.xmind'' ''invalid'' Map.empty =
     (Some (ValueError ''Invalid group_by option: invalid''), Map.empty) \<and>
   snd (xmind_export example_env example_writer two_color_result ''test.xmind'' ''invalid''
          Map.empty) ''test.xmind'' = None \<and>
   fst (xmind_export example_env example_writer two_color_result ''test.xmind'' ''page''
          Map.empty) = None \<and>
   snd (xmind_export example_env example_writer two_color_result ''test.xmind'' ''page''
          Map.empty) ''test.xmind'' \<noteq> None"
proof -
  have h: "''invalid'' \<noteq> ''page'' \<and> ''invalid'' \<noteq> ''color''" by simp
  from xmind_export_group_by
         [of "''invalid''" example_env example_writer two_color_result "''test.xmind''" Map.empty]
  have bad: "xmind_export example_env example_writer two_color_result ''test.xmind'' ''invalid''
               Map.empty = (Some (ValueError ''Invalid group_by option: invalid''), Map.empty)"
    using h by simp
  from xmind_export_group_by
         [of "''page''" example_env example_writer two_color_result "''test.xmind''" Map.empty]
  obtain sh where
    good: "xmind_export example_env example_writer two_color_result ''test.xmind'' ''page''
             Map.empty =
           example_writer ''test.xmind''
             \<lparr>content_json = [sh], manifest_json = create_manifest,
              metadata_json = create_metadata two_color_result\<rparr> Map.empty"
    by auto
  from h bad good show ?thesis
    by (simp add: example_writer_def)
qed

section \<open>The order of the group keys\<close>

lemma dec_digits_nonempty: "dec_digits n \<noteq> []"
  by (subst dec_digits.simps) simp

lemma digit_in: "k < 10 \<Longrightarrow> ''0123456789'' ! k \<in> set ''0123456789''"
  by (rule nth_mem) simp

lemma dec_digits_digits: "set (dec_digits n) \<subseteq> set ''0123456789''"
proof (induction n rule: dec_digits.induct)
  case (1 n)
  show ?case
  proof (cases "n < 10")
    case True
    then show ?thesis using digit_in [of n] by (subst dec_digits.simps) simp
  next
    case False
    have "n mod 10 < 10" by simp
    from digit_in [OF this] 1 [OF False] False show ?thesis
      by (subst dec_digits.simps) simp
  qed
qed

lemma digit_inj:
  assumes "j < 10" and "k < 10" and "''0123456789'' ! j = ''0123456789'' ! k"
  shows "j = k"
proof -
  have "distinct ''0123456789''" by simp
  moreover have "j < length ''0123456789''" "k < length ''0123456789''" using assms by simp_all
  ultimately show ?thesis using assms(3) by (simp only: nth_eq_iff_index_eq)
qed

lemma dec_digits_small: "n < 10 \<Longrightarrow> dec_digits n = [''0123456789'' ! n]"
  by (subst dec_digits.simps) simp

lemma dec_digits_large:
  "\<not> n < 10 \<Longrightarrow> dec_digits n = dec_digits (n div 10) @ [''0123456789'' ! (n mod 10)]"
  by (subst dec_digits.simps) simp

lemma dec_digits_inj: "dec_digits m = dec_digits n \<Longrightarrow> m = n"
proof (induction m arbitrary: n rule: dec_digits.induct)
  case (1 m)
  note eq = "1.prems"
  show ?case
  proof (cases "m < 10")
    case m: True
    show ?thesis
    proof (cases "n < 10")
      case True
      from eq have "''0123456789'' ! m = ''0123456789'' ! n"
        unfolding dec_digits_small [OF m] dec_digits_small [OF True] by (rule list.inject [THEN iffD1, THEN conjunct1])
      with m True show ?thesis by (rule digit_inj)
    next
      case False
      from eq have "[''0123456789'' ! m] = dec_digits (n div 10) @ [''0123456789'' ! (n mod 10)]"
        unfolding dec_digits_small [OF m] dec_digits_large [OF False] .
      then have "length [''0123456789'' ! m] = length (dec_digits (n div 10) @ [''0123456789'' ! (n mod 10)])"
        by (rule arg_cong)
      then have "length (dec_digits (n div 10)) = 0" by simp
      with dec_digits_nonempty [of "n div 10"] show ?thesis by simp
    qed
  next
    case m: False
    show ?thesis
    proof (cases "n < 10")
      case True
      from eq have "dec_digits (m div 10) @ [''0123456789'' ! (m mod 10)] = [''0123456789'' ! n]"
        unfolding dec_digits_small [OF True] dec_digits_large [OF m] .
      then have "length (dec_digits (m div 10) @ [''0123456789'' ! (m mod 10)]) = length [''0123456789'' ! n]"
        by (rule arg_cong)
      then have "length (dec_digits (m div 10)) = 0" by simp
      with dec_digits_nonempty [of "m div 10"] show ?thesis by simp
    next
      case False
      from eq have "dec_digits (m div 10) @ [''0123456789'' ! (m mod 10)] =
                    dec_digits (n div 10) @ [''0123456789'' ! (n mod 10)]"
        unfolding dec_digits_large [OF False] dec_digits_large [OF m] .
      then have d: "dec_digits (m div 10) = dec_digits (n div 10)"
        and l: "''0123456789'' ! (m mod 10) = ''0123456789'' ! (n mod 10)"
        by (simp_all)
      from "1.IH" [OF m d] have "m div 10 = n div 10" .
      moreover from digit_inj [OF _ _ l] have "m mod 10 = n mod 10" by simp
      ultimately show ?thesis by (metis div_mult_mod_eq)
    qed
  qed
qed

lemma str_int_inj: "str_int i = str_int j \<Longrightarrow> i = j"
proof -
  assume eq: "str_int i = str_int j"
  have no_minus: "CHR ''-'' \<notin> set (dec_digits n)" for n
    using dec_digits_digits [of n] by auto
  have hd_digit: "hd (dec_digits n) \<noteq> CHR ''-''" for n
    using no_minus [of n] dec_digits_nonempty [of n]
    by (cases "dec_digits n") auto
  show ?thesis
  proof (cases "i < 0")
    case i: True
    show ?thesis
    proof (cases "j < 0")
      case True
      with i eq have "dec_digits (nat (- i)) = dec_digits (nat (- j))"
        by (simp add: str_int_def)
      from dec_digits_inj [OF this] i True show ?thesis by simp
    next
      case False
      with i eq have "CHR ''-'' # dec_digits (nat (- i)) = dec_digits (nat j)"
        by (simp add: str_int_def)
      then have "hd (dec_digits (nat j)) = CHR ''-''" by (metis list.sel(1))
      with hd_digit show ?thesis by simp
    qed
  next
    case i: False
    show ?thesis
    proof (cases "j < 0")
      case True
      with i eq have "dec_digits (nat i) = CHR ''-'' # dec_digits (nat (- j))"
        by (simp add: str_int_def)
      then have "hd (dec_digits (nat i)) = CHR ''-''" by (metis list.sel(1))
      with hd_digit show ?thesis by simp
    next
      case False
      with i eq have "dec_digits (nat i) = dec_digits (nat j)"
        by (simp add: str_int_def)
      from dec_digits_inj [OF this] i False show ?thesis by simp
    qed
  qed
qed

lemma first_occ_map_inj:
  assumes "\<And>x y. f x = f y \<Longrightarrow> x = y"
  shows "first_occ (map f xs) = map f (first_occ xs)"
proof (induction xs rule: rev_induct)
  case Nil
  show ?case by (simp add: first_occ_def)
next
  case (snoc x xs)
  have "f x \<in> f ` set xs \<longleftrightarrow> x \<in> set xs" using assms by auto
  with snoc show ?case by (simp add: first_occ_snoc)
qed

lemma sorted_first_occ: "sorted xs \<Longrightarrow> sorted (first_occ xs)"
proof (induction xs rule: rev_induct)
  case Nil
  show ?case by (simp add: first_occ_def)
next
  case (snoc x xs)
  then show ?case
    by (auto simp: first_occ_snoc sorted_append set_first_occ)
qed

lemma first_occ_sorted: "sorted xs \<Longrightarrow> first_occ xs = sort (remdups xs)"
  by (rule sorted_distinct_set_unique)
     (simp_all add: sorted_first_occ distinct_first_occ set_first_occ)

lemma page_of_data: "extract_highlight_data pg a n = Some h \<Longrightarrow> hl_page h = n"
  using extract_highlight_data_Some by blast

lemma pages_of_page:
  assumes "h \<in> set (extract_page_highlights pg n)"
  shows "hl_page h = n"
proof -
  from assms obtain a where "annot_highlight pg n a = Some h"
    by (auto simp: extract_page_char in_set_map_filter)
  then have "extract_highlight_data pg a n = Some h"
    by (cases "a_type a") (simp_all add: annot_highlight_def split: if_splits)
  then show ?thesis by (rule page_of_data)
qed

lemma sorted_same: "(\<And>x. x \<in> set xs \<Longrightarrow> x = c) \<Longrightarrow> sorted xs"
  by (induction xs) auto

lemma doc_loop_sorted:
  assumes "sorted (map hl_page hs)" and "\<And>h. h \<in> set hs \<Longrightarrow> hl_page h \<le> n"
  shows "sorted (map hl_page (doc_loop pages n hs))"
  using assms
proof (induction pages arbitrary: n hs)
  case Nil
  then show ?case by simp
next
  case (Cons pg pages)
  let ?new = "extract_page_highlights pg (n + 1)"
  have new: "sorted (map hl_page ?new)"
    by (rule sorted_same [of _ "n + 1"]) (auto dest: pages_of_page)
  have le: "hl_page x \<le> hl_page y" if "x \<in> set hs" "y \<in> set ?new" for x y
    using Cons.prems(2) [OF that(1)] pages_of_page [OF that(2)] by simp
  have s: "sorted (map hl_page (hs @ ?new))"
    using Cons.prems(1) new le by (simp add: sorted_append)
  have b: "hl_page h \<le> n + 1" if "h \<in> set (hs @ ?new)" for h
    using that Cons.prems(2) [of h] pages_of_page [of h pg "n + 1"] by auto
  from Cons.IH [OF s b] show ?case by simp
qed

lemma extraction_pages_sorted:
  "extract_highlights env ex = Inr r \<Longrightarrow> sorted (map hl_page (highlights r))"
  using doc_loop_sorted [of "[]" 0]
  by (auto simp: extract_highlights_def Let_def split: option.splits if_splits)

lemma json_page_keys:
  assumes "sorted (map hl_page hs)"
  shows "map fst (group_highlights hs ''page'') = map str_int (sorted_keys hl_page hs)"
proof -
  have "map fst (group_highlights hs ''page'') = first_occ (map str_int (map hl_page hs))"
    by (simp add: group_highlights_def keys_group_loop comp_def)
  also have "\<dots> = map str_int (first_occ (map hl_page hs))"
    by (rule first_occ_map_inj) (rule str_int_inj)
  also have "\<dots> = map str_int (sorted_keys hl_page hs)"
    by (simp add: first_occ_sorted [OF assms] sorted_keys_def)
  finally show ?thesis .
qed

lemma json_group_keys_eq: "g \<noteq> [] \<Longrightarrow> json_group_keys d g = map fst (group_highlights (highlights d) g)"
  by (simp add: json_group_keys_def json_output_data_def)

lemma two_color_extraction:
  "extract_highlights example_env (example_extractor [two_color_page]) = Inr two_color_result"
proof -
  let ?y = "plain_annot [''stroke'' \<mapsto> ColorSeq [1, 1, 0]]"
  let ?r = "plain_annot [''stroke'' \<mapsto> ColorSeq [1, 0, 0]]"
  have cy: "ensure_three (resolve_color [''stroke'' \<mapsto> ColorSeq [1, 1, 0]]) = [1, 1, 0]"
    and cr: "ensure_three (resolve_color [''stroke'' \<mapsto> ColorSeq [1, 0, 0]]) = [1, 0, 0]"
    by (simp_all add: resolve_color_def ensure_three_def)
  have ny: "rgb_to_color_name [1, 1, 0] = ''Yellow''" and nr: "rgb_to_color_name [1, 0, 0] = ''Red''"
    by code_simp+
  have ty: "a_type ?y = Inr 8" and tr: "a_type ?r = Inr 8"
    by (simp_all add: plain_annot_def)
  have "extract_page_highlights two_color_page 1 = [yellow_highlight, red_highlight]"
    unfolding two_color_page_def
    by (simp add: extract_page_highlights_def text_page_def [of "[?y, ?r]", THEN arg_cong [of _ _ p_annots]]
          ty tr plain_annot_data [of "[?y, ?r]", unfolded text_page_def] cy cr ny nr
          yellow_highlight_def red_highlight_def text_page_def)
  then show ?thesis
    by (simp add: extract_highlights_def example_extractor_def example_env_def two_color_result_def)
qed

text \<open>
  C7, as the code has it. The mind-map and the Markdown formatter iterate the group keys
  in ascending order, on both levels: page numbers numerically, colour names
  lexicographically. The grouped view of the JSON formatter lists its keys in the order
  of their first occurrence in the highlight list; for the page keys of an extraction
  result this is ascending page order, the highlights being in page order; the colour
  keys are not sorted.
\<close>

theorem group_key_order:
  "(highlights d \<noteq> [] \<longrightarrow>
      (\<exists>sh. create_content env d ''page'' = Inr [sh] \<and>
            outline (root_attached (sheet_root sh)) = page_color_outline env (highlights d)) \<and>
      (\<exists>sh. create_content env d ''color'' = Inr [sh] \<and>
            outline (root_attached (sheet_root sh)) = color_page_outline env (highlights d)) \<and>
      generate_markdown env d ''page'' =
        Inr (join_newline (md_header env d @ [''## Highlights'' @ newline] @
                           page_sections env (highlights d))) \<and>
      generate_markdown env d ''color'' =
        Inr (join_newline (md_header env d @ [''## Highlights'' @ newline] @
                           color_sections env (highlights d)))) \<and>
   sorted (sorted_keys hl_page (highlights d)) \<and>
   distinct (sorted_keys hl_page (highlights d)) \<and>
   sorted (sorted_keys hl_color_name (highlights d)) \<and>
   distinct (sorted_keys hl_color_name (highlights d)) \<and>
   json_group_keys d ''color'' = first_occ (map hl_color_name (highlights d)) \<and>
   json_group_keys d ''page'' = first_occ (map (\<lambda>h. str_int (hl_page h)) (highlights d)) \<and>
   (extract_highlights env' ex = Inr d \<longrightarrow>
      json_group_keys d ''page'' = map str_int (sorted_keys hl_page (highlights d)))"
proof -
  have mind: "\<exists>sh. create_content env d g = Inr [sh] \<and>
            outline (root_attached (sheet_root sh)) =
              (if g = ''page'' then page_color_outline env (highlights d)
               else color_page_outline env (highlights d))"
    if "highlights d \<noteq> []" for g
    using create_content_total [of env d g] that by blast
  have md: "generate_markdown env d ''page'' =
        Inr (join_newline (md_header env d @ [''## Highlights'' @ newline] @
                           page_sections env (highlights d)))"
      "generate_markdown env d ''color'' =
        Inr (join_newline (md_header env d @ [''## Highlights'' @ newline] @
                           color_sections env (highlights d)))"
    if "highlights d \<noteq> []"
    using markdown_page_char [OF that, of env] markdown_color_char [OF that, of "''color''" env]
    by (simp_all add: generate_markdown_def)
  have keys: "json_group_keys d ''color'' = first_occ (map hl_color_name (highlights d))"
      "json_group_keys d ''page'' = first_occ (map (\<lambda>h. str_int (hl_page h)) (highlights d))"
    by (simp_all add: json_group_keys_eq group_highlights_def keys_group_loop)
  have asc: "json_group_keys d ''page'' = map str_int (sorted_keys hl_page (highlights d))"
    if "extract_highlights env' ex = Inr d"
    using json_page_keys [OF extraction_pages_sorted [OF that]]
    by (simp add: json_group_keys_eq)
  from mind [of "''page''"] mind [of "''color''"] md keys asc
    sorted_sorted_keys [of hl_page "highlights d"]
    sorted_sorted_keys [of hl_color_name "highlights d"]
  show ?thesis by simp
qed

theorem group_key_order_witness:
  "highlights two_color_result \<noteq> [] \<and>
   extract_highlights example_env (example_extractor [two_color_page]) = Inr two_color_result \<and>
   (\<exists>sh. create_content example_env two_color_result ''page'' = Inr [sh] \<and>
         outline (root_attached (sheet_root sh)) =
           [(''Page 1'', [(''Red'', [''Good text'']), (''Yellow'', [''Good text''])])]) \<and>
   (\<exists>sh. create_content example_env two_color_result ''color'' = Inr [sh] \<and>
         outline (root_attached (sheet_root sh)) =
           [(''Red'', [(''Page 1'', [''Good text''])]),
            (''Yellow'', [(''Page 1'', [''Good text''])])]) \<and>
   json_group_keys two_color_result ''page'' = [''1''] \<and>
   json_group_keys two_color_result ''color'' = [''Yellow'', ''Red'']"
proof -
  have h1: "highlights two_color_result \<noteq> []"
    by (simp add: two_color_result_def)
  note h2 = two_color_extraction
  have po: "page_color_outline example_env (highlights two_color_result) =
              [(''Page 1'', [(''Red'', [''Good text'']), (''Yellow'', [''Good text''])])]"
    by code_simp
  have co: "color_page_outline example_env (highlights two_color_result) =
              [(''Red'', [(''Page 1'', [''Good text''])]),
               (''Yellow'', [(''Page 1'', [''Good text''])])]"
    by code_simp
  have k1: "map str_int (sorted_keys hl_page (highlights two_color_result)) = [''1'']"
    by code_simp
  have k2: "first_occ (map hl_color_name (highlights two_color_result)) = [''Yellow'', ''Red'']"
    by code_simp
  note t = group_key_order [of two_color_result example_env example_env
                               "example_extractor [two_color_page]",
                             unfolded po co k1 k2]
  from t h1 h2 show ?thesis by blast
qed

text \<open>
  The extraction result of a page with a yellow annotation followed by a red one: the
  JSON view grouped by colour lists \<open>Yellow\<close> before \<open>Red\<close>.
\<close>

theorem json_color_order_counterexample:
  "extract_highlights example_env (example_extractor [two_color_page]) = Inr two_color_result \<and>
   jo_grouped_highlights (json_output_data two_color_result (Some ''color'')) =
     Some [(''Yellow'', [yellow_highlight]), (''Red'', [red_highlight])] \<and>
   \<not> sorted [''Yellow'', ''Red'']"
proof -
  have "group_highlights [yellow_highlight, red_highlight] ''color'' =
          [(''Yellow'', [yellow_highlight]), (''Red'', [red_highlight])]"
    by (simp add: group_highlights_def group_loop_def yellow_highlight_def red_highlight_def)
  moreover have "\<not> sorted [''Yellow'', ''Red'']"
    by code_simp
  ultimately show ?thesis
    by (simp add: two_color_extraction json_output_data_def two_color_result_def)
qed

end
